theory Spec2Isabelle
  imports Main "HOL-Library.Sublist" "HOL-Library.AList"
begin

section \<open>Export mixins of \<^verbatim>\<open>import_export/mixins.py\<close>\<close>

text \<open>
  The module is glue between a view, a list of file formats, a resource and the
  web framework. The embedding keeps the code's own steps: every method of the
  mixins is one definition of the same name, every exception the module can raise
  is a value of \<open>error\<close>, and every call into a collaborator that has an effect
  (querying, constructing a resource, encoding, sending the signal) leaves an
  \<open>event\<close> in the trace of the run.
\<close>

subsection \<open>Data model\<close>

datatype error = AttributeError | IndexError | KeyError | ValueError | TypeError

text \<open>
  A format class of \<^verbatim>\<open>base_formats\<close>. Its constructor takes no argument and its
  instances are stateless, so the class is represented by what a fresh instance
  \<^verbatim>\<open>f()\<close> answers: \<^verbatim>\<open>can_import()\<close>, \<^verbatim>\<open>can_export()\<close>, \<^verbatim>\<open>get_title()\<close>,
  \<^verbatim>\<open>get_extension()\<close>, \<^verbatim>\<open>get_content_type()\<close> and \<^verbatim>\<open>export_data(data)\<close>.
\<close>

record 'd format =
  can_import :: bool
  can_export :: bool
  get_title :: string
  get_extension :: string
  get_content_type :: string
  export_data :: "'d \<Rightarrow> string"

text \<open>A model class, as far as this module looks at it: its \<^verbatim>\<open>__name__\<close>.\<close>

datatype model_class = Model (model_name: string)

type_synonym kwargs = "(string \<times> string) list"

text \<open>
  A resource class: \<^verbatim>\<open>Meta.model\<close> (absent or \<^verbatim>\<open>None\<close> for a resource that is
  not bound to a model) and \<^verbatim>\<open>ResourceClass(**kwargs).export(queryset)\<close>.
\<close>

record ('q, 'd) resource =
  meta_model :: "model_class option"
  export :: "kwargs \<Rightarrow> 'q \<Rightarrow> 'd"

type_synonym filterset_class = string

text \<open>
  The view (\<^verbatim>\<open>self\<close>): the class attributes \<^verbatim>\<open>formats\<close>, \<^verbatim>\<open>resource_class\<close>
  (default \<^verbatim>\<open>None\<close>) and \<^verbatim>\<open>model\<close> (default \<^verbatim>\<open>None\<close>), and what the hosting
  view supplies: \<^verbatim>\<open>get_queryset()\<close>, the API framework's \<^verbatim>\<open>filter_queryset(qs)\<close>,
  and the two optional attributes \<^verbatim>\<open>get_filterset\<close> (its result already read
  through \<^verbatim>\<open>.qs\<close>) and \<^verbatim>\<open>get_filterset_class\<close>; \<open>None\<close> is an attribute the
  view does not have.
\<close>

record ('q, 'd) view =
  formats :: "'d format list"
  resource_class :: "('q, 'd) resource option"
  model :: "model_class option"
  get_queryset :: "'q"
  filter_queryset :: "'q \<Rightarrow> 'q"
  get_filterset :: "(filterset_class \<Rightarrow> 'q) option"
  get_filterset_class :: "filterset_class option"

subsection \<open>Format filtering\<close>

text \<open>
  \<^verbatim>\<open>[f for f in self.formats if f().can_import()]\<close>,
  \<^verbatim>\<open>[f for f in self.formats if f().can_export()]\<close> and
  \<^verbatim>\<open>[f().get_title() for f in self.formats if f().can_export()]\<close>: each
  comprehension is its own loop over \<^verbatim>\<open>self.formats\<close>.
\<close>

fun import_formats_of :: "'d format list \<Rightarrow> 'd format list" where
  "import_formats_of [] = []"
| "import_formats_of (f # fs) =
     (if can_import f then f # import_formats_of fs else import_formats_of fs)"

fun export_formats_of :: "'d format list \<Rightarrow> 'd format list" where
  "export_formats_of [] = []"
| "export_formats_of (f # fs) =
     (if can_export f then f # export_formats_of fs else export_formats_of fs)"

fun export_titles_of :: "'d format list \<Rightarrow> string list" where
  "export_titles_of [] = []"
| "export_titles_of (f # fs) =
     (if can_export f then get_title f # export_titles_of fs else export_titles_of fs)"

definition get_import_formats :: "('q, 'd) view \<Rightarrow> 'd format list" where
  "get_import_formats self = import_formats_of (formats self)"

definition get_export_formats :: "('q, 'd) view \<Rightarrow> 'd format list" where
  "get_export_formats self = export_formats_of (formats self)"

definition get_allowed_export_formats :: "('q, 'd) view \<Rightarrow> string list" where
  "get_allowed_export_formats self = export_titles_of (formats self)"

text \<open>\<^verbatim>\<open>list.index(x)\<close>: the first position holding \<open>x\<close>, or \<^verbatim>\<open>ValueError\<close>.\<close>

fun list_index :: "'a list \<Rightarrow> 'a \<Rightarrow> error + nat" where
  "list_index [] x = Inl ValueError"
| "list_index (y # ys) x =
     (if y = x then Inr 0
      else (case list_index ys x of Inl e \<Rightarrow> Inl e | Inr i \<Rightarrow> Inr (Suc i)))"

subsection \<open>Python built-ins the module calls\<close>

text \<open>
  \<^verbatim>\<open>str(i)\<close> for a natural number (the form's choices are \<^verbatim>\<open>str(i)\<close> for the
  positions \<open>i\<close> of the export formats): decimal digits, no leading zero.
\<close>

definition digit_char :: "nat \<Rightarrow> char" where
  "digit_char d = char_of (48 + d)"

fun str_nat :: "nat \<Rightarrow> string" where
  "str_nat n = (if n < 10 then [digit_char n] else str_nat (n div 10) @ [digit_char (n mod 10)])"

definition is_digit :: "char \<Rightarrow> bool" where
  "is_digit c = (48 \<le> (of_char c :: nat) \<and> (of_char c :: nat) \<le> 57)"

definition digit_val :: "char \<Rightarrow> nat" where
  "digit_val c = of_char c - 48"

definition is_space :: "char \<Rightarrow> bool" where
  "is_space c = ((9 \<le> (of_char c :: nat) \<and> (of_char c :: nat) \<le> 13)
                 \<or> (28 \<le> (of_char c :: nat) \<and> (of_char c :: nat) \<le> 32))"

definition strip :: "string \<Rightarrow> string" where
  "strip s = rev (dropWhile is_space (rev (dropWhile is_space s)))"

text \<open>
  \<^verbatim>\<open>int(s)\<close> on a string, base ten: surrounding whitespace is dropped, one sign
  may lead, and the rest is a non-empty run of ASCII digits in which single
  underscores may separate digits; anything else is \<^verbatim>\<open>ValueError\<close>.
\<close>

fun underscores_ok :: "string \<Rightarrow> bool" where
  "underscores_ok [] = True"
| "underscores_ok [c] = is_digit c"
| "underscores_ok (c # d # cs) =
     (is_digit c \<and>
      (if d = CHR ''_'' then cs \<noteq> [] \<and> underscores_ok cs else underscores_ok (d # cs)))"

definition int_digits :: "string \<Rightarrow> error + nat" where
  "int_digits s =
     (if s \<noteq> [] \<and> underscores_ok s
      then Inr (foldl (\<lambda>a c. 10 * a + digit_val c) 0 (filter (\<lambda>c. c \<noteq> CHR ''_'') s))
      else Inl ValueError)"

definition py_int :: "string \<Rightarrow> error + int" where
  "py_int s =
     (case strip s of
        [] \<Rightarrow> Inl ValueError
      | c # cs \<Rightarrow>
          if c = CHR ''-'' then map_sum id (\<lambda>n. - int n) (int_digits cs)
          else if c = CHR ''+'' then map_sum id int (int_digits cs)
          else map_sum id int (int_digits (c # cs)))"

text \<open>\<^verbatim>\<open>xs[i]\<close>: a negative index counts from the end, out of range is \<^verbatim>\<open>IndexError\<close>.\<close>

definition getitem :: "'a list \<Rightarrow> int \<Rightarrow> error + 'a" where
  "getitem xs i =
     (if 0 \<le> i \<and> i < int (length xs) then Inr (xs ! nat i)
      else if i < 0 \<and> - int (length xs) \<le> i then Inr (xs ! nat (int (length xs) + i))
      else Inl IndexError)"

text \<open>\<^verbatim>\<open>d[k]\<close> and \<^verbatim>\<open>d.get(k, default)\<close> on a dictionary.\<close>

definition dict_getitem :: "('k \<rightharpoonup> 'v) \<Rightarrow> 'k \<Rightarrow> error + 'v" where
  "dict_getitem d k = (case d k of None \<Rightarrow> Inl KeyError | Some v \<Rightarrow> Inr v)"

definition dict_get :: "('k \<rightharpoonup> 'v) \<Rightarrow> 'k \<Rightarrow> 'v \<Rightarrow> 'v" where
  "dict_get d k dflt = (case d k of None \<Rightarrow> dflt | Some v \<Rightarrow> v)"

text \<open>
  The clock: \<^verbatim>\<open>now()\<close> returns the current date and time, of which
  \<^verbatim>\<open>strftime('%Y-%m-%d')\<close> prints the year in four digits and the month and the
  day in two, zero-padded.
\<close>

record date =
  year :: nat
  month :: nat
  day :: nat

definition zfill :: "nat \<Rightarrow> string \<Rightarrow> string" where
  "zfill w s = replicate (w - length s) (CHR ''0'') @ s"

definition strftime_Ymd :: "date \<Rightarrow> string" where
  "strftime_Ymd d =
     zfill 4 (str_nat (year d)) @ ''-'' @ zfill 2 (str_nat (month d)) @ ''-''
       @ zfill 2 (str_nat (day d))"

text \<open>
  The dates for which the shape of the printed date is stated: a year of four
  digits (below 1000 the padding of \<^verbatim>\<open>%Y\<close> depends on the platform), a
  month and a day of the calendar's range.
\<close>

definition valid_date :: "date \<Rightarrow> bool" where
  "valid_date d =
     (1000 \<le> year d \<and> year d \<le> 9999 \<and> 1 \<le> month d \<and> month d \<le> 12
      \<and> 1 \<le> day d \<and> day d \<le> 31)"

subsection \<open>Requests, responses and the world around a view\<close>

record request =
  GET :: "string \<rightharpoonup> string"

record form =
  cleaned_data :: "string \<rightharpoonup> string"

datatype content = Bytes string | Json "(string \<times> string) list"

text \<open>
  A response: the status, the headers in the order they were set
  (\<^verbatim>\<open>response[k] = v\<close> replaces the value of a header that is there and
  appends one that is not) and the body.
\<close>

record response =
  status_code :: nat
  headers :: "(string \<times> string) list"
  content :: content

text \<open>
  \<^verbatim>\<open>django.http.HttpResponse(content, content_type=...)\<close> answers with status 200
  and the given \<^verbatim>\<open>Content-Type\<close>; the keyword \<^verbatim>\<open>mimetype\<close> is not one of its
  parameters (``Django 1.7 uses the content_type kwarg instead of mimetype''), so
  passing it is a \<^verbatim>\<open>TypeError\<close>. \<^verbatim>\<open>JsonResponse(data, status)\<close> carries the
  dictionary as JSON.
\<close>

datatype response_kwarg = Kw_content_type | Kw_mimetype

definition HttpResponse :: "string \<Rightarrow> response_kwarg \<Rightarrow> string \<Rightarrow> error + response" where
  "HttpResponse body kw ct =
     (case kw of
        Kw_content_type \<Rightarrow>
          Inr \<lparr>status_code = 200, headers = [(''Content-Type'', ct)], content = Bytes body\<rparr>
      | Kw_mimetype \<Rightarrow> Inl TypeError)"

definition JsonResponse :: "(string \<times> string) list \<Rightarrow> nat \<Rightarrow> response" where
  "JsonResponse data st =
     \<lparr>status_code = st, headers = [(''Content-Type'', ''application/json'')],
      content = Json data\<rparr>"

definition setitem :: "response \<Rightarrow> string \<Rightarrow> string \<Rightarrow> response" where
  "setitem r k v = r\<lparr>headers := AList.update k v (headers r)\<rparr>"

text \<open>
  What a run reads from outside the view: the clock, and
  \<^verbatim>\<open>modelresource_factory\<close> of \<^verbatim>\<open>import_export.resources\<close>, which is
  applied to whatever \<^verbatim>\<open>self.model\<close> holds and may raise.
\<close>

record ('q, 'd) env =
  now :: date
  modelresource_factory :: "model_class option \<Rightarrow> error + ('q, 'd) resource"

subsection \<open>Runs: a trace of effects and a result or an exception\<close>

datatype ('q, 'd) event =
    GetQueryset
  | FilterQueryset 'q
  | GetFilterset filterset_class
  | ResourceInit kwargs
  | ResourceExport 'q
  | ExportData "'d format" 'd
  | PostExport "model_class option"

type_synonym ('q, 'd, 'a) run = "('q, 'd) event list \<times> (error + 'a)"

definition succeed :: "'a \<Rightarrow> ('q, 'd, 'a) run" where
  "succeed x = ([], Inr x)"

definition raise :: "error \<Rightarrow> ('q, 'd, 'a) run" where
  "raise e = ([], Inl e)"

definition lift :: "error + 'a \<Rightarrow> ('q, 'd, 'a) run" where
  "lift r = ([], r)"

definition emit :: "('q, 'd) event \<Rightarrow> ('q, 'd, unit) run" where
  "emit ev = ([ev], Inr ())"

definition and_then :: "('q, 'd, 'a) run \<Rightarrow> ('a \<Rightarrow> ('q, 'd, 'b) run) \<Rightarrow> ('q, 'd, 'b) run" where
  "and_then m k =
     (case m of
        (tr, Inl e) \<Rightarrow> (tr, Inl e)
      | (tr, Inr x) \<Rightarrow> (case k x of (tr', r) \<Rightarrow> (tr @ tr', r)))"

subsection \<open>BaseImportExportMixin, BaseImportMixin, BaseExportMixin\<close>

text \<open>
  \<^verbatim>\<open>if not self.resource_class: return modelresource_factory(self.model)\<close>;
  \<^verbatim>\<open>return self.resource_class\<close>. A class is truthy, \<^verbatim>\<open>None\<close> is not.
\<close>

definition get_resource_class :: "('q, 'd) env \<Rightarrow> ('q, 'd) view \<Rightarrow> error + ('q, 'd) resource" where
  "get_resource_class world self =
     (if resource_class self = None then modelresource_factory world (model self)
      else Inr (the (resource_class self)))"

definition get_resource_kwargs :: "('q, 'd) view \<Rightarrow> kwargs" where
  "get_resource_kwargs self = []"

definition get_import_resource_class :: "('q, 'd) env \<Rightarrow> ('q, 'd) view \<Rightarrow> error + ('q, 'd) resource" where
  "get_import_resource_class world self = get_resource_class world self"

definition get_import_resource_kwargs :: "('q, 'd) view \<Rightarrow> kwargs" where
  "get_import_resource_kwargs self = get_resource_kwargs self"

definition get_export_resource_class :: "('q, 'd) env \<Rightarrow> ('q, 'd) view \<Rightarrow> error + ('q, 'd) resource" where
  "get_export_resource_class world self = get_resource_class world self"

definition get_export_resource_kwargs :: "('q, 'd) view \<Rightarrow> kwargs" where
  "get_export_resource_kwargs self = get_resource_kwargs self"

text \<open>
  \<^verbatim>\<open>resource_class(**kwargs).export(queryset)\<close>: the class is resolved, an
  instance is constructed, and its export runs on the queryset.
\<close>

definition get_data_for_export :: "('q, 'd) env \<Rightarrow> ('q, 'd) view \<Rightarrow> 'q \<Rightarrow> ('q, 'd, 'd) run" where
  "get_data_for_export world self queryset =
     and_then (lift (get_export_resource_class world self)) (\<lambda>rc.
     and_then (emit (ResourceInit (get_export_resource_kwargs self))) (\<lambda>_.
     and_then (emit (ResourceExport queryset)) (\<lambda>_.
     succeed (export rc (get_export_resource_kwargs self) queryset))))"

text \<open>
  \<^verbatim>\<open>"%s-%s.%s" % (self.resource_class.Meta.model.__name__, date_str,
  file_format.get_extension())\<close>: the attribute chain is read on the class
  attribute \<^verbatim>\<open>resource_class\<close> itself.
\<close>

definition get_export_filename :: "('q, 'd) env \<Rightarrow> ('q, 'd) view \<Rightarrow> 'd format \<Rightarrow> error + string" where
  "get_export_filename world self file_format =
     (let date_str = strftime_Ymd (now world) in
      case resource_class self of
        None \<Rightarrow> Inl AttributeError
      | Some rc \<Rightarrow>
          (case meta_model rc of
             None \<Rightarrow> Inl AttributeError
           | Some m \<Rightarrow> Inr (model_name m @ ''-'' @ date_str @ ''.'' @ get_extension file_format)))"

subsection \<open>ExportViewMixin, ExportViewFormMixin, ExportModelDRFMixin\<close>

definition get_export_data :: "('q, 'd) env \<Rightarrow> ('q, 'd) view \<Rightarrow> 'd format \<Rightarrow> 'q \<Rightarrow> ('q, 'd, string) run" where
  "get_export_data world self file_format queryset =
     and_then (get_data_for_export world self queryset) (\<lambda>data.
     and_then (emit (ExportData file_format data)) (\<lambda>_.
     succeed (export_data file_format data)))"

text \<open>
  \<^verbatim>\<open>try: HttpResponse(export_data, content_type=content_type)\<close>
  \<^verbatim>\<open>except TypeError: HttpResponse(export_data, mimetype=content_type)\<close>
\<close>

definition make_response :: "string \<Rightarrow> string \<Rightarrow> error + response" where
  "make_response payload ctype =
     (case HttpResponse payload Kw_content_type ctype of
        Inl TypeError \<Rightarrow> HttpResponse payload Kw_mimetype ctype
      | r \<Rightarrow> r)"

definition content_disposition :: "string \<Rightarrow> string" where
  "content_disposition filename =
     ''attachment; filename='' @ [CHR 0x22] @ filename @ [CHR 0x22]"

text \<open>
  \<^verbatim>\<open>if hasattr(self, 'get_filterset'):\<close>
  \<^verbatim>\<open>queryset = self.get_filterset(self.get_filterset_class()).qs\<close>
  \<^verbatim>\<open>else: queryset = self.get_queryset()\<close>
\<close>

definition form_valid :: "('q, 'd) env \<Rightarrow> ('q, 'd) view \<Rightarrow> form \<Rightarrow> ('q, 'd, response) run" where
  "form_valid world self frm =
     (let fmts = get_export_formats self in
      and_then (lift (dict_getitem (cleaned_data frm) ''file_format'')) (\<lambda>s.
      and_then (lift (py_int s)) (\<lambda>i.
      and_then (lift (getitem fmts i)) (\<lambda>file_format.
      and_then
        (case get_filterset self of
           Some g \<Rightarrow>
             (case get_filterset_class self of
                None \<Rightarrow> raise AttributeError
              | Some c \<Rightarrow> and_then (emit (GetFilterset c)) (\<lambda>_. succeed (g c)))
         | None \<Rightarrow> and_then (emit GetQueryset) (\<lambda>_. succeed (get_queryset self)))
        (\<lambda>queryset.
      and_then (get_export_data world self file_format queryset) (\<lambda>payload.
      let ctype = get_content_type file_format in
      and_then (lift (make_response payload ctype)) (\<lambda>resp.
      and_then (lift (get_export_filename world self file_format)) (\<lambda>filename.
      let resp' = setitem resp ''Content-Disposition'' (content_disposition filename) in
      and_then (emit (PostExport (model self))) (\<lambda>_.
      succeed resp')))))))))"

text \<open>
  \<^verbatim>\<open>try: index = self.get_allowed_export_formats().index(request.GET.get('format', 'csv'))\<close>
  \<^verbatim>\<open>except ValueError: return JsonResponse(data={'message': 'format is not supported'}, status=400)\<close>
\<close>

definition export_action :: "('q, 'd) env \<Rightarrow> ('q, 'd) view \<Rightarrow> request \<Rightarrow> ('q, 'd, response) run" where
  "export_action world self req =
     (let fmts = get_export_formats self in
      case list_index (get_allowed_export_formats self) (dict_get (GET req) ''format'' ''csv'') of
        Inl ValueError \<Rightarrow>
          succeed (JsonResponse [(''message'', ''format is not supported'')] 400)
      | Inl e \<Rightarrow> raise e
      | Inr index \<Rightarrow>
          and_then (lift (getitem fmts (int index))) (\<lambda>file_format.
          let ctype = get_content_type file_format in
          and_then (emit GetQueryset) (\<lambda>_.
          and_then (emit (FilterQueryset (get_queryset self))) (\<lambda>_.
          let queryset = filter_queryset self (get_queryset self) in
          and_then (get_export_data world self file_format queryset) (\<lambda>payload.
          and_then (lift (make_response payload ctype)) (\<lambda>resp.
          and_then (lift (get_export_filename world self file_format)) (\<lambda>filename.
          let resp' = setitem resp ''Content-Disposition'' (content_disposition filename) in
          succeed resp')))))))"

subsection \<open>Formats, a resource and views to run the definitions on\<close>

text \<open>
  \<open>import_only\<close> cannot export and bears the title of \<open>csv\<close>: positions in
  \<^verbatim>\<open>formats\<close> and in the export formats differ on the views below.
\<close>

definition csv :: "string list format" where
  "csv = \<lparr>can_import = True, can_export = True, get_title = ''csv'', get_extension = ''csv'',
          get_content_type = ''text/csv'', export_data = concat\<rparr>"

definition xlsx :: "string list format" where
  "xlsx = \<lparr>can_import = True, can_export = True, get_title = ''xlsx'', get_extension = ''xlsx'',
           get_content_type = ''application/vnd.openxmlformats-officedocument.spreadsheetml.sheet'',
           export_data = (\<lambda>rows. ''PK'' @ concat rows)\<rparr>"

definition import_only :: "string list format" where
  "import_only = \<lparr>can_import = True, can_export = False, get_title = ''csv'',
                  get_extension = ''dat'', get_content_type = ''application/octet-stream'',
                  export_data = (\<lambda>rows. [])\<rparr>"

definition book_resource :: "(nat list, string list) resource" where
  "book_resource = \<lparr>meta_model = Some (Model ''Book''), export = (\<lambda>kw qs. map str_nat qs)\<rparr>"

definition book_view :: "(nat list, string list) view" where
  "book_view =
     \<lparr>formats = [import_only, csv, xlsx], resource_class = Some book_resource,
      model = Some (Model ''Book''), get_queryset = [1, 2, 3], filter_queryset = filter even,
      get_filterset = None, get_filterset_class = None\<rparr>"

text \<open>The same view with \<^verbatim>\<open>resource_class\<close> left at its default.\<close>

definition plain_view :: "(nat list, string list) view" where
  "plain_view = book_view\<lparr>resource_class := None\<rparr>"

text \<open>The same view with the filtering capability of a filter view.\<close>

definition filtered_view :: "(nat list, string list) view" where
  "filtered_view =
     book_view\<lparr>get_filterset := Some (\<lambda>c. [4, 5]), get_filterset_class := Some ''BookFilter''\<rparr>"

definition the_world :: "(nat list, string list) env" where
  "the_world =
     \<lparr>now = \<lparr>year = 2024, month = 3, day = 7\<rparr>,
      modelresource_factory =
        (\<lambda>m. case m of
                None \<Rightarrow> Inl AttributeError
              | Some mc \<Rightarrow> Inr \<lparr>meta_model = Some mc, export = (\<lambda>kw qs. map str_nat qs)\<rparr>)\<rparr>"

declare str_nat.simps [simp del]

subsection \<open>Facts about format filtering\<close>

lemma import_formats_of_filter: "import_formats_of fs = filter can_import fs"
  by (induction fs) simp_all

lemma export_formats_of_filter: "export_formats_of fs = filter can_export fs"
  by (induction fs) simp_all

lemma export_titles_of_map: "export_titles_of fs = map get_title (export_formats_of fs)"
  by (induction fs) simp_all

lemma list_index_Inr_iff:
  "list_index xs x = Inr i \<longleftrightarrow> i < length xs \<and> xs ! i = x \<and> (\<forall>j<i. xs ! j \<noteq> x)"
proof (induction xs arbitrary: i)
  case Nil
  show ?case by simp
next
  case (Cons y ys)
  show ?case
  proof (cases "y = x")
    case True
    then show ?thesis by (cases i) auto
  next
    case False
    show ?thesis
    proof (cases i)
      case 0
      with False show ?thesis by (simp split: sum.splits)
    next
      case (Suc k)
      have "(\<forall>j<Suc k. (y # ys) ! j \<noteq> x) \<longleftrightarrow> (\<forall>j<k. ys ! j \<noteq> x)"
        using False by (auto simp: less_Suc_eq_0_disj)
      with False Suc Cons.IH [of k] show ?thesis
        by (auto split: sum.splits)
    qed
  qed
qed

lemma list_index_Inl_iff: "list_index xs x = Inl e \<longleftrightarrow> e = ValueError \<and> x \<notin> set xs"
  by (induction xs) (auto split: sum.splits)

subsection \<open>Decimal strings: \<open>int\<close> reads back what \<open>str\<close> and \<open>strftime\<close> print\<close>

lemma digit_char_is_digit: "d < 10 \<Longrightarrow> is_digit (digit_char d)"
  by (simp add: is_digit_def digit_char_def)

lemma digit_val_digit_char: "d < 10 \<Longrightarrow> digit_val (digit_char d) = d"
  by (simp add: digit_val_def digit_char_def)

lemma str_nat_nonempty: "str_nat n \<noteq> []"
  by (subst str_nat.simps) simp

lemma str_nat_digits: "c \<in> set (str_nat n) \<Longrightarrow> is_digit c"
proof (induction n arbitrary: c rule: str_nat.induct)
  case (1 n)
  show ?case
  proof (cases "n < 10")
    case True
    with "1.prems" show ?thesis
      by (subst (asm) str_nat.simps) (simp add: digit_char_is_digit)
  next
    case False
    with "1.prems" have "c \<in> set (str_nat (n div 10)) \<or> c = digit_char (n mod 10)"
      by (subst (asm) str_nat.simps) auto
    with False "1.IH" show ?thesis
      by (auto simp: digit_char_is_digit)
  qed
qed

lemma length_str_nat: "n < 10 ^ k \<Longrightarrow> 0 < k \<Longrightarrow> length (str_nat n) \<le> k"
proof (induction n arbitrary: k rule: str_nat.induct)
  case (1 n)
  show ?case
  proof (cases "n < 10")
    case True
    with "1.prems" show ?thesis by (subst str_nat.simps) simp
  next
    case False
    obtain j where k: "k = Suc j" using "1.prems" by (cases k) auto
    with False "1.prems" have j: "0 < j" by (cases j) auto
    from "1.prems" k have "n div 10 < 10 ^ j" by (simp add: less_mult_imp_div_less mult.commute)
    with "1.IH" [OF False this j] False k show ?thesis
      by (subst str_nat.simps) simp
  qed
qed

lemma dec_value_str_nat: "foldl (\<lambda>a c. 10 * a + digit_val c) 0 (str_nat n) = n"
proof (induction n rule: str_nat.induct)
  case (1 n)
  show ?case
  proof (cases "n < 10")
    case True
    then show ?thesis by (subst str_nat.simps) (simp add: digit_val_digit_char)
  next
    case False
    with "1.IH" show ?thesis
      by (subst str_nat.simps) (simp add: digit_val_digit_char)
  qed
qed

lemma digit_val_zero: "digit_val (CHR ''0'') = 0"
  by (simp add: digit_val_def)

lemma dec_value_zeros: "foldl (\<lambda>a c. 10 * a + digit_val c) 0 (replicate k (CHR ''0'')) = 0"
  by (induction k) (simp_all add: digit_val_zero)

lemma underscores_ok_digits: "\<forall>c\<in>set s. is_digit c \<Longrightarrow> underscores_ok s"
proof (induction s rule: underscores_ok.induct)
  case (3 c d cs)
  then have "d \<noteq> CHR ''_''" by (auto simp: is_digit_def)
  with 3 show ?case by simp
qed simp_all

lemma filter_underscore_digits: "\<forall>c\<in>set s. is_digit c \<Longrightarrow> filter (\<lambda>c. c \<noteq> CHR ''_'') s = s"
  by (induction s) (auto simp: is_digit_def)

lemma int_digits_digits:
  "s \<noteq> [] \<Longrightarrow> \<forall>c\<in>set s. is_digit c \<Longrightarrow> int_digits s = Inr (foldl (\<lambda>a c. 10 * a + digit_val c) 0 s)"
  by (simp add: int_digits_def underscores_ok_digits filter_underscore_digits)

lemma digit_not_space: "is_digit c \<Longrightarrow> \<not> is_space c"
  by (auto simp: is_digit_def is_space_def)

lemma strip_digits: "\<forall>c\<in>set s. is_digit c \<Longrightarrow> strip s = s"
proof (cases s rule: rev_cases)
  case Nil
  then show ?thesis by (simp add: strip_def)
next
  case (snoc ys y)
  assume d: "\<forall>c\<in>set s. is_digit c"
  with snoc have y: "\<not> is_space y" by (simp add: digit_not_space)
  have "dropWhile is_space s = s"
    using d by (cases s) (auto simp: digit_not_space)
  with snoc y show ?thesis by (simp add: strip_def)
qed

lemma digit_not_sign: "is_digit c \<Longrightarrow> c \<noteq> CHR ''-'' \<and> c \<noteq> CHR ''+''"
  by (auto simp: is_digit_def)

lemma py_int_digits:
  assumes "s \<noteq> []" and "\<forall>c\<in>set s. is_digit c"
  shows "py_int s = Inr (int (foldl (\<lambda>a c. 10 * a + digit_val c) 0 s))"
proof -
  obtain c cs where s: "s = c # cs" using assms(1) by (cases s) auto
  with assms(2) have "is_digit c" by simp
  then have "c \<noteq> CHR ''-''" "c \<noteq> CHR ''+''" by (simp_all add: digit_not_sign)
  moreover have "strip s = c # cs" using strip_digits [OF assms(2)] s by simp
  moreover have "int_digits (c # cs) = Inr (foldl (\<lambda>a c. 10 * a + digit_val c) 0 s)"
    using int_digits_digits [OF assms] s by simp
  ultimately show ?thesis by (simp add: py_int_def)
qed

lemma py_int_str_nat: "py_int (str_nat n) = Inr (int n)"
  using py_int_digits [of "str_nat n"] by (simp add: str_nat_nonempty str_nat_digits dec_value_str_nat)

lemma zero_is_digit: "is_digit (CHR ''0'')"
  by (simp add: is_digit_def)

lemma py_int_zfill: "py_int (zfill w (str_nat n)) = Inr (int n)"
proof -
  have "zfill w (str_nat n) \<noteq> []" by (simp add: zfill_def str_nat_nonempty)
  moreover have "\<forall>c\<in>set (zfill w (str_nat n)). is_digit c"
    by (auto simp: zfill_def str_nat_digits zero_is_digit)
  ultimately show ?thesis
    using py_int_digits [of "zfill w (str_nat n)"]
    by (simp add: zfill_def dec_value_zeros dec_value_str_nat)
qed

lemma length_zfill: "length s \<le> w \<Longrightarrow> length (zfill w s) = w"
  by (simp add: zfill_def)

subsection \<open>What a run of each entry point is\<close>

lemmas run_defs = and_then_def lift_def emit_def succeed_def raise_def

lemma get_data_for_export_run:
  "get_data_for_export world self q =
     (case get_resource_class world self of
        Inl e \<Rightarrow> ([], Inl e)
      | Inr rc \<Rightarrow> ([ResourceInit [], ResourceExport q], Inr (export rc [] q)))"
  by (simp add: get_data_for_export_def get_export_resource_class_def
      get_export_resource_kwargs_def get_resource_kwargs_def run_defs split: sum.splits)

lemma get_export_data_run:
  "get_export_data world self f q =
     (case get_resource_class world self of
        Inl e \<Rightarrow> ([], Inl e)
      | Inr rc \<Rightarrow>
          ([ResourceInit [], ResourceExport q, ExportData f (export rc [] q)],
           Inr (export_data f (export rc [] q))))"
  by (simp add: get_export_data_def get_data_for_export_run run_defs split: sum.splits)

lemma make_response_run:
  "make_response payload ctype =
     Inr \<lparr>status_code = 200, headers = [(''Content-Type'', ctype)], content = Bytes payload\<rparr>"
  by (simp add: make_response_def HttpResponse_def)

lemma setitem_disposition:
  "setitem \<lparr>status_code = st, headers = [(''Content-Type'', ctype)], content = b\<rparr>
     ''Content-Disposition'' v =
   \<lparr>status_code = st, headers = [(''Content-Type'', ctype), (''Content-Disposition'', v)],
    content = b\<rparr>"
  by (simp add: setitem_def)

lemma getitem_nat: "i < length xs \<Longrightarrow> getitem xs (int i) = Inr (xs ! i)"
  by (simp add: getitem_def)

lemma form_valid_selected:
  assumes "cleaned_data frm ''file_format'' = Some s" and "py_int s = Inr i"
    and "getitem (get_export_formats self) i = Inr f"
  shows "form_valid world self frm =
     (case get_filterset self of
        Some g \<Rightarrow>
          (case get_filterset_class self of
             None \<Rightarrow> ([], Inl AttributeError)
           | Some c \<Rightarrow>
               (case get_resource_class world self of
                  Inl e \<Rightarrow> ([GetFilterset c], Inl e)
                | Inr rc \<Rightarrow>
                    (case get_export_filename world self f of
                       Inl e \<Rightarrow>
                         ([GetFilterset c, ResourceInit [], ResourceExport (g c),
                           ExportData f (export rc [] (g c))], Inl e)
                     | Inr fn \<Rightarrow>
                         ([GetFilterset c, ResourceInit [], ResourceExport (g c),
                           ExportData f (export rc [] (g c)), PostExport (model self)],
                          Inr \<lparr>status_code = 200,
                               headers = [(''Content-Type'', get_content_type f),
                                          (''Content-Disposition'', content_disposition fn)],
                               content = Bytes (export_data f (export rc [] (g c)))\<rparr>))))
      | None \<Rightarrow>
          (case get_resource_class world self of
             Inl e \<Rightarrow> ([GetQueryset], Inl e)
           | Inr rc \<Rightarrow>
               (case get_export_filename world self f of
                  Inl e \<Rightarrow>
                    ([GetQueryset, ResourceInit [], ResourceExport (get_queryset self),
                      ExportData f (export rc [] (get_queryset self))], Inl e)
                | Inr fn \<Rightarrow>
                    ([GetQueryset, ResourceInit [], ResourceExport (get_queryset self),
                      ExportData f (export rc [] (get_queryset self)), PostExport (model self)],
                     Inr \<lparr>status_code = 200,
                          headers = [(''Content-Type'', get_content_type f),
                                     (''Content-Disposition'', content_disposition fn)],
                          content = Bytes (export_data f (export rc [] (get_queryset self)))\<rparr>))))"
  using assms
  by (simp add: form_valid_def Let_def dict_getitem_def get_export_data_run make_response_run
      setitem_disposition run_defs split: option.splits sum.splits)


lemma form_valid_unselected:
  "cleaned_data frm ''file_format'' = None \<Longrightarrow> form_valid world self frm = ([], Inl KeyError)"
  "cleaned_data frm ''file_format'' = Some s \<Longrightarrow> py_int s = Inl e \<Longrightarrow>
     form_valid world self frm = ([], Inl e)"
  "cleaned_data frm ''file_format'' = Some s \<Longrightarrow> py_int s = Inr i \<Longrightarrow>
     getitem (get_export_formats self) i = Inl e \<Longrightarrow> form_valid world self frm = ([], Inl e)"
  by (simp_all add: form_valid_def Let_def dict_getitem_def run_defs)

lemma export_action_rejected:
  assumes "list_index (get_allowed_export_formats self) (dict_get (GET req) ''format'' ''csv'') = Inl e"
  shows "export_action world self req =
       ([], Inr (JsonResponse [(''message'', ''format is not supported'')] 400))"
proof -
  from assms have "e = ValueError" by (simp add: list_index_Inl_iff)
  with assms have "list_index (get_allowed_export_formats self)
      (dict_get (GET req) ''format'' ''csv'') = Inl ValueError" by simp
  then show ?thesis by (simp add: export_action_def Let_def run_defs)
qed

lemma export_action_allowed:
  assumes "list_index (get_allowed_export_formats self) (dict_get (GET req) ''format'' ''csv'') = Inr i"
    and "getitem (get_export_formats self) (int i) = Inr f"
  shows "export_action world self req =
     (case get_resource_class world self of
        Inl e \<Rightarrow> ([GetQueryset, FilterQueryset (get_queryset self)], Inl e)
      | Inr rc \<Rightarrow>
          (case get_export_filename world self f of
             Inl e \<Rightarrow>
               ([GetQueryset, FilterQueryset (get_queryset self), ResourceInit [],
                 ResourceExport (filter_queryset self (get_queryset self)),
                 ExportData f (export rc [] (filter_queryset self (get_queryset self)))], Inl e)
           | Inr fn \<Rightarrow>
               ([GetQueryset, FilterQueryset (get_queryset self), ResourceInit [],
                 ResourceExport (filter_queryset self (get_queryset self)),
                 ExportData f (export rc [] (filter_queryset self (get_queryset self)))],
                Inr \<lparr>status_code = 200,
                     headers = [(''Content-Type'', get_content_type f),
                                (''Content-Disposition'', content_disposition fn)],
                     content = Bytes (export_data f
                       (export rc [] (filter_queryset self (get_queryset self))))\<rparr>)))"
  using assms
  by (simp add: export_action_def Let_def get_export_data_run make_response_run
      setitem_disposition run_defs split: option.splits sum.splits)

lemma titles_aligned:
  "get_allowed_export_formats self = map get_title (get_export_formats self)"
  by (simp add: get_allowed_export_formats_def get_export_formats_def export_titles_of_map)

lemma allowed_index_selects:
  assumes "list_index (get_allowed_export_formats self) t = Inr i"
  shows "i < length (get_export_formats self)"
    and "getitem (get_export_formats self) (int i) = Inr (get_export_formats self ! i)"
    and "get_title (get_export_formats self ! i) = t"
proof -
  from assms have i: "i < length (get_allowed_export_formats self)"
    and t: "get_allowed_export_formats self ! i = t"
    by (simp_all add: list_index_Inr_iff)
  from i show len: "i < length (get_export_formats self)" by (simp add: titles_aligned)
  then show "getitem (get_export_formats self) (int i) = Inr (get_export_formats self ! i)"
    by (rule getitem_nat)
  from t len show "get_title (get_export_formats self ! i) = t" by (simp add: titles_aligned)
qed

lemma list_index_total: "x \<in> set xs \<Longrightarrow> \<exists>i. list_index xs x = Inr i"
  using list_index_Inl_iff [of xs x] by (cases "list_index xs x") auto

subsection \<open>The example view, evaluated\<close>

lemma book_view_export_formats: "get_export_formats book_view = [csv, xlsx]"
  by (simp add: get_export_formats_def book_view_def csv_def xlsx_def import_only_def)

lemma book_view_allowed: "get_allowed_export_formats book_view = [''csv'', ''xlsx'']"
  by (simp add: titles_aligned book_view_export_formats csv_def xlsx_def)

lemma book_view_resource: "get_resource_class the_world book_view = Inr book_resource"
  by (simp add: get_resource_class_def book_view_def)

lemma today: "strftime_Ymd (now the_world) = ''2024-03-07''"
  by code_simp

lemma book_view_filename:
  "get_export_filename the_world book_view f = Inr (''Book-2024-03-07.'' @ get_extension f)"
  by (simp add: get_export_filename_def today book_view_def book_resource_def)

lemma book_view_queryset: "filter_queryset book_view (get_queryset book_view) = [2]"
  by (simp add: book_view_def)

lemma str_nat_2: "str_nat 2 = ''2''"
  by code_simp

lemma book_export_2: "export book_resource [] [2] = [''2'']"
  by (simp add: book_resource_def str_nat_2)

lemma plain_view_export_formats: "get_export_formats plain_view = [csv, xlsx]"
  by (simp add: get_export_formats_def plain_view_def book_view_def csv_def xlsx_def import_only_def)

lemma plain_view_allowed: "get_allowed_export_formats plain_view = [''csv'', ''xlsx'']"
  by (simp add: titles_aligned plain_view_export_formats csv_def xlsx_def)

lemma plain_view_resource:
  "get_resource_class the_world plain_view
     = Inr \<lparr>meta_model = Some (Model ''Book''), export = (\<lambda>kw qs. map str_nat qs)\<rparr>"
  by (simp add: get_resource_class_def plain_view_def book_view_def the_world_def)

lemma plain_view_filename: "get_export_filename the_world plain_view f = Inl AttributeError"
  by (simp add: get_export_filename_def plain_view_def)

lemma strftime_Ymd_parts:
  assumes "valid_date d"
  shows "length (strftime_Ymd d) = 10"
    and "strftime_Ymd d ! 4 = CHR ''-''"
    and "strftime_Ymd d ! 7 = CHR ''-''"
    and "take 4 (strftime_Ymd d) = zfill 4 (str_nat (year d))"
    and "take 2 (drop 5 (strftime_Ymd d)) = zfill 2 (str_nat (month d))"
    and "drop 8 (strftime_Ymd d) = zfill 2 (str_nat (day d))"
proof -
  from assms have "year d < 10000" "month d < 100" "day d < 100"
    by (simp_all add: valid_date_def)
  then have "length (str_nat (year d)) \<le> 4" "length (str_nat (month d)) \<le> 2"
    "length (str_nat (day d)) \<le> 2"
    using length_str_nat [of "year d" 4] length_str_nat [of "month d" 2]
      length_str_nat [of "day d" 2]
    by simp_all
  then have y: "length (zfill 4 (str_nat (year d))) = 4"
    and m: "length (zfill 2 (str_nat (month d))) = 2"
    and dd: "length (zfill 2 (str_nat (day d))) = 2"
    by (simp_all add: length_zfill)
  show "length (strftime_Ymd d) = 10" by (simp add: strftime_Ymd_def y m dd)
  show "strftime_Ymd d ! 4 = CHR ''-''" by (simp add: strftime_Ymd_def nth_append y)
  show "strftime_Ymd d ! 7 = CHR ''-''" by (simp add: strftime_Ymd_def nth_append y m)
  show "take 4 (strftime_Ymd d) = zfill 4 (str_nat (year d))"
    by (simp add: strftime_Ymd_def y)
  show "take 2 (drop 5 (strftime_Ymd d)) = zfill 2 (str_nat (month d))"
    by (simp add: strftime_Ymd_def y m)
  show "drop 8 (strftime_Ymd d) = zfill 2 (str_nat (day d))"
    by (simp add: strftime_Ymd_def y m dd)
qed

lemma export_action_found:
  assumes i: "list_index (get_allowed_export_formats self)
      (dict_get (GET req) ''format'' ''csv'') = Inr i"
   and rc: "get_resource_class world self = Inr rc"
   and fn: "get_export_filename world self (get_export_formats self ! i) = Inr fn"
  shows "export_action world self req =
      ([GetQueryset, FilterQueryset (get_queryset self), ResourceInit [],
        ResourceExport (filter_queryset self (get_queryset self)),
        ExportData (get_export_formats self ! i)
          (export rc [] (filter_queryset self (get_queryset self)))],
       Inr \<lparr>status_code = 200,
            headers =
              [(''Content-Type'', get_content_type (get_export_formats self ! i)),
               (''Content-Disposition'', content_disposition fn)],
            content = Bytes (export_data (get_export_formats self ! i)
              (export rc [] (filter_queryset self (get_queryset self))))\<rparr>)"
proof -
  note sel = allowed_index_selects [OF i]
  show ?thesis
    by (simp only: export_action_allowed [OF i sel(2)] rc fn sum.case)
qed

lemma get_resource_class_configured:
  "resource_class self = Some rc \<Longrightarrow> get_resource_class world self = Inr rc"
  by (simp add: get_resource_class_def)

lemma get_export_filename_configured:
  assumes "resource_class self = Some rc" and "meta_model rc = Some m"
  shows "get_export_filename world self f =
      Inr (model_name m @ ''-'' @ strftime_Ymd (now world) @ ''.'' @ get_extension f)"
  using assms by (simp add: get_export_filename_def)

lemma export_action_configured:
  assumes "dict_get (GET req) ''format'' ''csv'' \<in> set (get_allowed_export_formats self)"
    and "resource_class self = Some rc" and "meta_model rc = Some m"
  shows "\<exists>i f. list_index (get_allowed_export_formats self)
                  (dict_get (GET req) ''format'' ''csv'') = Inr i
           \<and> getitem (get_export_formats self) (int i) = Inr f
           \<and> get_title f = dict_get (GET req) ''format'' ''csv''
           \<and> export_action world self req =
               ([GetQueryset, FilterQueryset (get_queryset self), ResourceInit [],
                 ResourceExport (filter_queryset self (get_queryset self)),
                 ExportData f (export rc [] (filter_queryset self (get_queryset self)))],
                Inr \<lparr>status_code = 200,
                     headers =
                       [(''Content-Type'', get_content_type f),
                        (''Content-Disposition'',
                         ''attachment; filename='' @ [CHR 0x22]
                           @ (model_name m @ ''-'' @ strftime_Ymd (now world) @ ''.''
                                @ get_extension f)
                           @ [CHR 0x22])],
                     content = Bytes (export_data f
                       (export rc [] (filter_queryset self (get_queryset self))))\<rparr>)"
proof -
  from list_index_total [OF assms(1)] obtain i where i: "list_index (get_allowed_export_formats self)
      (dict_get (GET req) ''format'' ''csv'') = Inr i" ..
  note sel = allowed_index_selects [OF i]
  note rc = get_resource_class_configured [OF assms(2), of world]
  note fn = get_export_filename_configured [OF assms(2,3), of world "get_export_formats self ! i"]
  note run = export_action_found [OF i rc fn, unfolded content_disposition_def]
  show ?thesis
    by (intro exI conjI) (rule i, rule sel(2), rule sel(3), rule run)
qed

lemma valid_today: "valid_date (now the_world)"
  by (simp add: valid_date_def the_world_def)

lemma form_valid_no_filterset_class:
  assumes "cleaned_data frm ''file_format'' = Some s" and "py_int s = Inr i"
    and "getitem (get_export_formats self) i = Inr f"
    and "get_filterset self = Some g" and "get_filterset_class self = None"
  shows "form_valid world self frm = ([], Inl AttributeError)"
  by (simp add: form_valid_selected [OF assms(1,2,3)] assms(4,5))

lemma form_valid_resolved:
  assumes "cleaned_data frm ''file_format'' = Some s" and "py_int s = Inr i"
    and "getitem (get_export_formats self) i = Inr f"
    and "(get_filterset self = None \<and> ev = GetQueryset \<and> q = get_queryset self)
         \<or> (\<exists>g c. get_filterset self = Some g \<and> get_filterset_class self = Some c
                \<and> ev = GetFilterset c \<and> q = g c)"
  shows "form_valid world self frm =
     (case get_resource_class world self of
        Inl e \<Rightarrow> ([ev], Inl e)
      | Inr rc \<Rightarrow>
          (case get_export_filename world self f of
             Inl e \<Rightarrow> ([ev, ResourceInit [], ResourceExport q, ExportData f (export rc [] q)], Inl e)
           | Inr fn \<Rightarrow>
               ([ev, ResourceInit [], ResourceExport q, ExportData f (export rc [] q),
                 PostExport (model self)],
                Inr \<lparr>status_code = 200,
                     headers = [(''Content-Type'', get_content_type f),
                                (''Content-Disposition'', content_disposition fn)],
                     content = Bytes (export_data f (export rc [] q))\<rparr>)))"
  using assms(4)
proof (elim disjE conjE exE)
  assume a: "get_filterset self = None" "ev = GetQueryset" "q = get_queryset self"
  show ?thesis unfolding a(2,3) by (simp add: form_valid_selected [OF assms(1,2,3)] a(1))
next
  fix g c
  assume a: "get_filterset self = Some g" "get_filterset_class self = Some c"
    "ev = GetFilterset c" "q = g c"
  show ?thesis unfolding a(3,4) by (simp add: form_valid_selected [OF assms(1,2,3)] a(1,2))
qed

lemma queryset_resolution_cases:
  fixes self :: "('q, 'd) view"
  obtains (missing) g where "get_filterset self = Some g" "get_filterset_class self = None"
  | (resolved) ev q where
      "(get_filterset self = None \<and> ev = (GetQueryset :: ('q, 'd) event)
          \<and> q = get_queryset self)
       \<or> (\<exists>g c. get_filterset self = Some g \<and> get_filterset_class self = Some c
              \<and> ev = GetFilterset c \<and> q = g c)"
proof (cases "get_filterset self")
  case None
  then show ?thesis using resolved [of GetQueryset "get_queryset self"] by simp
next
  case (Some g)
  show ?thesis
  proof (cases "get_filterset_class self")
    case None
    with Some show ?thesis by (rule missing)
  next
    case (Some c)
    with \<open>get_filterset self = Some g\<close> show ?thesis
      using resolved [of "GetFilterset c" "g c"] by simp
  qed
qed

lemma form_valid_cases:
  fixes self :: "('q, 'd) view"
  obtains (unselected) e where "form_valid world self frm = ([], Inl e)"
  | (selected) s i f ev q where "cleaned_data frm ''file_format'' = Some s" "py_int s = Inr i"
      "getitem (get_export_formats self) i = Inr f"
      "(get_filterset self = None \<and> ev = (GetQueryset :: ('q, 'd) event)
          \<and> q = get_queryset self)
       \<or> (\<exists>g c. get_filterset self = Some g \<and> get_filterset_class self = Some c
              \<and> ev = GetFilterset c \<and> q = g c)"
proof (cases "cleaned_data frm ''file_format''")
  case None
  then show ?thesis using unselected form_valid_unselected(1) by blast
next
  case (Some s)
  show ?thesis
  proof (cases "py_int s")
    case (Inl e)
    with Some show ?thesis using unselected form_valid_unselected(2) by blast
  next
    case (Inr i)
    show ?thesis
    proof (cases "getitem (get_export_formats self) i")
      case (Inl e)
      with Some Inr show ?thesis using unselected form_valid_unselected(3) by blast
    next
      case f: (Inr f)
      show ?thesis
      proof (cases rule: queryset_resolution_cases [where self = self])
        case (missing g)
        then show ?thesis
          using unselected form_valid_no_filterset_class [OF Some Inr f] by blast
      next
        case (resolved ev q)
        with Some Inr f show ?thesis by (rule selected)
      qed
    qed
  qed
qed

lemma get_export_filename_unconfigured:
  "resource_class self = None \<Longrightarrow> get_export_filename world self f = Inl AttributeError"
  by (simp add: get_export_filename_def)

lemma str_nat_0: "str_nat 0 = ''0''"
  by code_simp

lemma str_nat_1: "str_nat (Suc 0) = ''1''"
  by code_simp

lemma py_int_0: "py_int ''0'' = Inr 0"
  using py_int_str_nat [of 0] by (simp add: str_nat_0)

lemma py_int_1: "py_int ''1'' = Inr 1"
  using py_int_str_nat [of "Suc 0"] by (simp add: str_nat_1)

lemma book_view_get_queryset: "get_queryset book_view = [1, 2, 3]"
  by (simp add: book_view_def)

lemma book_view_no_filterset: "get_filterset book_view = None"
  by (simp add: book_view_def)

lemma str_nat_3: "str_nat 3 = ''3''"
  by code_simp

lemma book_export_123: "export book_resource [] [Suc 0, 2, 3] = [''1'', ''2'', ''3'']"
  by (simp add: book_resource_def str_nat_1 str_nat_2 str_nat_3)

lemma book_form_run_csv:
  "form_valid the_world book_view \<lparr>cleaned_data = [''file_format'' \<mapsto> ''0'']\<rparr> =
     ([GetQueryset, ResourceInit [], ResourceExport [1, 2, 3], ExportData csv [''1'', ''2'', ''3''],
       PostExport (Some (Model ''Book''))],
      Inr \<lparr>status_code = 200,
           headers = [(''Content-Type'', ''text/csv''),
                      (''Content-Disposition'', content_disposition ''Book-2024-03-07.csv'')],
           content = Bytes ''123''\<rparr>)"
proof -
  have c: "cleaned_data \<lparr>cleaned_data = [''file_format'' \<mapsto> ''0'']\<rparr> ''file_format'' = Some ''0''"
    by simp
  have f: "getitem (get_export_formats book_view) 0 = Inr csv"
    by (simp add: getitem_def book_view_export_formats)
  have m: "model book_view = Some (Model ''Book'')" by (simp add: book_view_def)
  show ?thesis
    unfolding form_valid_selected [OF c py_int_0 f]
    by (simp add: book_view_no_filterset book_view_resource book_view_filename
        book_view_get_queryset book_export_123 m csv_def)
qed

lemma getitem_in_set: "getitem xs i = Inr x \<Longrightarrow> x \<in> set xs"
  by (auto simp: getitem_def split: if_splits)

lemma get_export_filename_error:
  "get_export_filename world self f = Inl e \<Longrightarrow> e = AttributeError"
  by (auto simp: get_export_filename_def split: option.splits)

lemma book_form_run_xlsx:
  "form_valid the_world book_view \<lparr>cleaned_data = [''file_format'' \<mapsto> ''1'']\<rparr> =
     ([GetQueryset, ResourceInit [], ResourceExport [1, 2, 3], ExportData xlsx [''1'', ''2'', ''3''],
       PostExport (Some (Model ''Book''))],
      Inr \<lparr>status_code = 200,
           headers = [(''Content-Type'',
                       ''application/vnd.openxmlformats-officedocument.spreadsheetml.sheet''),
                      (''Content-Disposition'', content_disposition ''Book-2024-03-07.xlsx'')],
           content = Bytes ''PK123''\<rparr>)"
proof -
  have c: "cleaned_data \<lparr>cleaned_data = [''file_format'' \<mapsto> ''1'']\<rparr> ''file_format'' = Some ''1''"
    by simp
  have f: "getitem (get_export_formats book_view) 1 = Inr xlsx"
    by (simp add: getitem_def book_view_export_formats)
  have m: "model book_view = Some (Model ''Book'')" by (simp add: book_view_def)
  show ?thesis
    unfolding form_valid_selected [OF c py_int_1 f]
    by (simp add: book_view_no_filterset book_view_resource book_view_filename
        book_view_get_queryset book_export_123 m xlsx_def)
qed

lemma plain_form_run:
  "form_valid the_world plain_view \<lparr>cleaned_data = [''file_format'' \<mapsto> ''1'']\<rparr> =
     ([GetQueryset, ResourceInit [], ResourceExport [1, 2, 3], ExportData xlsx [''1'', ''2'', ''3'']],
      Inl AttributeError)"
proof -
  have c: "cleaned_data \<lparr>cleaned_data = [''file_format'' \<mapsto> ''1'']\<rparr> ''file_format'' = Some ''1''"
    by simp
  have f: "getitem (get_export_formats plain_view) 1 = Inr xlsx"
    by (simp add: getitem_def plain_view_export_formats)
  have nf: "get_filterset plain_view = None" "get_queryset plain_view = [1, 2, 3]"
    by (simp_all add: plain_view_def book_view_def)
  show ?thesis
    unfolding form_valid_selected [OF c py_int_1 f]
    by (simp add: nf plain_view_resource plain_view_filename str_nat_1 str_nat_2 str_nat_3)
qed

lemma filtered_form_run:
  "form_valid the_world filtered_view \<lparr>cleaned_data = [''file_format'' \<mapsto> ''0'']\<rparr> =
     ([GetFilterset ''BookFilter'', ResourceInit [], ResourceExport [4, 5],
       ExportData csv [''4'', ''5''], PostExport (Some (Model ''Book''))],
      Inr \<lparr>status_code = 200,
           headers = [(''Content-Type'', ''text/csv''),
                      (''Content-Disposition'', content_disposition ''Book-2024-03-07.csv'')],
           content = Bytes ''45''\<rparr>)"
proof -
  have c: "cleaned_data \<lparr>cleaned_data = [''file_format'' \<mapsto> ''0'']\<rparr> ''file_format'' = Some ''0''"
    by simp
  have fm: "get_export_formats filtered_view = [csv, xlsx]"
    by (simp add: get_export_formats_def filtered_view_def book_view_def csv_def xlsx_def
        import_only_def)
  have f: "getitem (get_export_formats filtered_view) 0 = Inr csv"
    by (simp add: getitem_def fm)
  have v: "get_filterset filtered_view = Some (\<lambda>c. [4, 5])"
    "get_filterset_class filtered_view = Some ''BookFilter''"
    "model filtered_view = Some (Model ''Book'')"
    by (simp_all add: filtered_view_def book_view_def)
  have rc: "get_resource_class the_world filtered_view = Inr book_resource"
    by (simp add: get_resource_class_def filtered_view_def book_view_def)
  have fn: "get_export_filename the_world filtered_view f
      = Inr (''Book-2024-03-07.'' @ get_extension f)" for f
    by (simp add: get_export_filename_def today filtered_view_def book_view_def
        book_resource_def)
  have s45: "map str_nat [4, 5] = [''4'', ''5'']" by code_simp
  have ex: "export book_resource [] [4, 5] = [''4'', ''5'']"
    by (simp only: book_resource_def resource.simps s45)
  show ?thesis
    unfolding form_valid_selected [OF c py_int_0 f]
    by (simp add: v rc fn ex csv_def)
qed

section \<open>The claims\<close>

text \<open>
  C1. For every configured \<^verbatim>\<open>formats\<close> sequence, \<^verbatim>\<open>get_export_formats()\<close> is
  exactly the ordered sublist of the formats whose instances report
  \<^verbatim>\<open>can_export()\<close>, in the original relative order, and
  \<^verbatim>\<open>get_import_formats()\<close> is the same for \<^verbatim>\<open>can_import()\<close>.
\<close>

theorem format_filtering:
  "get_export_formats self = filter can_export (formats self)
   \<and> get_import_formats self = filter can_import (formats self)
   \<and> subseq (get_export_formats self) (formats self)
   \<and> subseq (get_import_formats self) (formats self)"
  by (simp add: get_export_formats_def get_import_formats_def export_formats_of_filter
      import_formats_of_filter)

text \<open>
  C2. The allowed titles and the export formats are filtered alike: they have the
  same length, position \<open>i\<close> of the titles is the title of position \<open>i\<close> of the
  formats, so the position \<^verbatim>\<open>index\<close> finds for a title is in range and holds a
  format of that title; every format the API export action encodes with is an
  export format bearing the requested title.
\<close>

theorem allowed_titles_follow_export_formats:
  "length (get_allowed_export_formats self) = length (get_export_formats self)
   \<and> (\<forall>i<length (get_export_formats self).
         get_allowed_export_formats self ! i = get_title (get_export_formats self ! i))
   \<and> (\<forall>t i. list_index (get_allowed_export_formats self) t = Inr i \<longrightarrow>
         getitem (get_export_formats self) (int i) = Inr (get_export_formats self ! i)
         \<and> get_title (get_export_formats self ! i) = t)
   \<and> (\<forall>world req f d. ExportData f d \<in> set (fst (export_action world self req)) \<longrightarrow>
         f \<in> set (get_export_formats self)
         \<and> get_title f = dict_get (GET req) ''format'' ''csv'')"
proof (intro conjI allI impI)
  show "length (get_allowed_export_formats self) = length (get_export_formats self)"
    by (simp add: titles_aligned)
next
  fix i assume "i < length (get_export_formats self)"
  then show "get_allowed_export_formats self ! i = get_title (get_export_formats self ! i)"
    by (simp add: titles_aligned)
next
  fix t i assume "list_index (get_allowed_export_formats self) t = Inr i"
  then show "getitem (get_export_formats self) (int i) = Inr (get_export_formats self ! i)"
    and "get_title (get_export_formats self ! i) = t"
    by (rule allowed_index_selects)+
next
  fix world req f d
  assume ev: "ExportData f d \<in> set (fst (export_action world self req))"
  let ?t = "dict_get (GET req) ''format'' ''csv''"
  have "f \<in> set (get_export_formats self) \<and> get_title f = ?t"
  proof (cases "list_index (get_allowed_export_formats self) ?t")
    case (Inl e)
    with ev show ?thesis by (simp add: export_action_rejected)
  next
    case (Inr i)
    note sel = allowed_index_selects [OF Inr]
    from ev have "f = get_export_formats self ! i"
      by (simp add: export_action_allowed [OF Inr sel(2)] split: sum.splits)
    with sel show ?thesis by simp
  qed
  then show "f \<in> set (get_export_formats self)" and "get_title f = ?t" by simp_all
qed

theorem allowed_titles_follow_export_formats_witness:
  "1 < length (get_export_formats book_view)
   \<and> get_allowed_export_formats book_view ! 1 = get_title (get_export_formats book_view ! 1)
   \<and> list_index (get_allowed_export_formats book_view) ''xlsx'' = Inr 1
   \<and> getitem (get_export_formats book_view) (int 1) = Inr (get_export_formats book_view ! 1)
   \<and> get_title (get_export_formats book_view ! 1) = ''xlsx''
   \<and> ExportData xlsx [''2'']
        \<in> set (fst (export_action the_world book_view \<lparr>GET = [''format'' \<mapsto> ''xlsx'']\<rparr>))
   \<and> xlsx \<in> set (get_export_formats book_view)
   \<and> get_title xlsx = dict_get (GET \<lparr>GET = [''format'' \<mapsto> ''xlsx'']\<rparr>) ''format'' ''csv''"
proof -
  let ?req = "\<lparr>GET = [''format'' \<mapsto> ''xlsx'']\<rparr>"
  have h1: "1 < length (get_export_formats book_view)"
    by (simp add: book_view_export_formats)
  have h2: "list_index (get_allowed_export_formats book_view) ''xlsx'' = Inr 1"
    by (simp add: book_view_allowed)
  have t: "dict_get (GET ?req) ''format'' ''csv'' = ''xlsx''"
    by (simp add: dict_get_def)
  have sel: "getitem (get_export_formats book_view) (int 1) = Inr xlsx"
    by (simp add: getitem_def book_view_export_formats)
  have h2': "list_index (get_allowed_export_formats book_view)
      (dict_get (GET ?req) ''format'' ''csv'') = Inr 1"
    using h2 t by simp
  have h3: "ExportData xlsx [''2''] \<in> set (fst (export_action the_world book_view ?req))"
    by (simp add: export_action_allowed [OF h2' sel] book_view_resource
        book_view_filename book_view_queryset book_export_2)
  note T = allowed_titles_follow_export_formats [of book_view]
  from T h1 have c1: "get_allowed_export_formats book_view ! 1
      = get_title (get_export_formats book_view ! 1)" by blast
  from T h2 have c2: "getitem (get_export_formats book_view) (int 1)
      = Inr (get_export_formats book_view ! 1)
      \<and> get_title (get_export_formats book_view ! 1) = ''xlsx''" by blast
  from T h3 have c3: "xlsx \<in> set (get_export_formats book_view)
      \<and> get_title xlsx = dict_get (GET ?req) ''format'' ''csv''" by blast
  from h1 h2 h3 c1 c2 c3 show ?thesis by blast
qed

text \<open>
  C3. When the \<^verbatim>\<open>format\<close> query parameter (\<^verbatim>\<open>csv\<close> when absent) is not
  one of the allowed titles, the API export action returns at once the JSON
  response \<^verbatim>\<open>{"message": "format is not supported"}\<close> with status 400; the
  trace of the run is empty: no resource was constructed, nothing was queried
  and nothing was encoded.
\<close>

theorem unsupported_format_rejected:
  assumes "dict_get (GET req) ''format'' ''csv'' \<notin> set (get_allowed_export_formats self)"
  shows "export_action world self req =
           ([], Inr (JsonResponse [(''message'', ''format is not supported'')] 400))
         \<and> status_code (JsonResponse [(''message'', ''format is not supported'')] 400) = 400
         \<and> content (JsonResponse [(''message'', ''format is not supported'')] 400)
             = Json [(''message'', ''format is not supported'')]"
proof -
  from assms have "list_index (get_allowed_export_formats self)
      (dict_get (GET req) ''format'' ''csv'') = Inl ValueError"
    by (simp add: list_index_Inl_iff)
  then show ?thesis
    by (simp add: export_action_rejected JsonResponse_def)
qed

theorem unsupported_format_rejected_witness:
  "dict_get (GET \<lparr>GET = [''format'' \<mapsto> ''unknownformat'']\<rparr>) ''format'' ''csv''
     \<notin> set (get_allowed_export_formats book_view)
   \<and> fst (export_action the_world book_view \<lparr>GET = [''format'' \<mapsto> ''unknownformat'']\<rparr>) = []
   \<and> snd (export_action the_world book_view \<lparr>GET = [''format'' \<mapsto> ''unknownformat'']\<rparr>)
       = Inr \<lparr>status_code = 400, headers = [(''Content-Type'', ''application/json'')],
              content = Json [(''message'', ''format is not supported'')]\<rparr>"
proof -
  have h: "dict_get (GET \<lparr>GET = [''format'' \<mapsto> ''unknownformat'']\<rparr>) ''format'' ''csv''
     \<notin> set (get_allowed_export_formats book_view)"
    by (simp add: dict_get_def book_view_allowed)
  from unsupported_format_rejected [OF h, of the_world] h show ?thesis
    by (simp add: JsonResponse_def)
qed

text \<open>
  C4. Every request to the API export action whose format title is in the allowed
  list (\<^verbatim>\<open>csv\<close> when the \<^verbatim>\<open>format\<close> parameter is absent) is to get a
  response with status 200, the content type of the format, the header
  \<^verbatim>\<open>Content-Disposition: attachment; filename="..."\<close> with the derived filename
  and the encoded export of the framework-filtered queryset as its body. The
  code does so on a view that configures \<^verbatim>\<open>resource_class\<close>
  (\<open>export_action_configured\<close>, and the second run below). On a view that
  leaves \<^verbatim>\<open>resource_class\<close> at its default \<^verbatim>\<open>None\<close> and declares
  \<^verbatim>\<open>model\<close>, which \<^verbatim>\<open>get_resource_class()\<close> supports through the factory, the
  same request is not answered: the title \<^verbatim>\<open>csv\<close> is allowed, the queryset is
  filtered, the resource the factory derives is constructed and exports, the
  format encodes the data, and then \<^verbatim>\<open>get_export_filename\<close> reads
  \<^verbatim>\<open>self.resource_class.Meta\<close> on \<^verbatim>\<open>None\<close> and the run ends in
  \<^verbatim>\<open>AttributeError\<close>.
\<close>

theorem api_export_fails_unconfigured:
  "resource_class plain_view = None
   \<and> model plain_view = Some (Model ''Book'')
   \<and> dict_get (GET \<lparr>GET = Map.empty\<rparr>) ''format'' ''csv''
       \<in> set (get_allowed_export_formats plain_view)
   \<and> get_resource_class the_world plain_view
       = Inr \<lparr>meta_model = Some (Model ''Book''), export = (\<lambda>kw qs. map str_nat qs)\<rparr>
   \<and> export_action the_world plain_view \<lparr>GET = Map.empty\<rparr>
       = ([GetQueryset, FilterQueryset [1, 2, 3], ResourceInit [], ResourceExport [2],
           ExportData csv [''2'']], Inl AttributeError)
   \<and> export_action the_world book_view \<lparr>GET = Map.empty\<rparr>
       = ([GetQueryset, FilterQueryset [1, 2, 3], ResourceInit [], ResourceExport [2],
           ExportData csv [''2'']],
          Inr \<lparr>status_code = 200,
               headers =
                 [(''Content-Type'', ''text/csv''),
                  (''Content-Disposition'',
                   ''attachment; filename='' @ [CHR 0x22] @ ''Book-2024-03-07.csv''
                     @ [CHR 0x22])],
               content = Bytes ''2''\<rparr>)"
proof -
  let ?req = "\<lparr>GET = Map.empty\<rparr> :: request"
  have t: "dict_get Map.empty ''format'' ''csv'' = ''csv''" by (simp add: dict_get_def)
  have v: "resource_class plain_view = None" "model plain_view = Some (Model ''Book'')"
    by (simp_all add: plain_view_def book_view_def)
  have a: "dict_get (GET ?req) ''format'' ''csv'' \<in> set (get_allowed_export_formats plain_view)"
    by (simp add: t plain_view_allowed)
  have i: "list_index (get_allowed_export_formats plain_view)
      (dict_get (GET ?req) ''format'' ''csv'') = Inr 0"
    by (simp add: t plain_view_allowed)
  have f: "getitem (get_export_formats plain_view) (int 0) = Inr csv"
    by (simp add: getitem_def plain_view_export_formats)
  have q: "get_queryset plain_view = [1, 2, 3]" "filter_queryset plain_view = filter even"
    by (simp_all add: plain_view_def book_view_def)
  have bad: "export_action the_world plain_view ?req
       = ([GetQueryset, FilterQueryset [1, 2, 3], ResourceInit [], ResourceExport [2],
           ExportData csv [''2'']], Inl AttributeError)"
    by (simp add: export_action_allowed [OF i f] plain_view_resource plain_view_filename q
        str_nat_2)
  have i': "list_index (get_allowed_export_formats book_view)
      (dict_get (GET ?req) ''format'' ''csv'') = Inr 0"
    by (simp add: t book_view_allowed)
  have f': "getitem (get_export_formats book_view) (int 0) = Inr csv"
    by (simp add: getitem_def book_view_export_formats)
  have q': "get_queryset book_view = [1, 2, 3]" "filter_queryset book_view = filter even"
    by (simp_all add: book_view_def)
  have good: "export_action the_world book_view ?req
       = ([GetQueryset, FilterQueryset [1, 2, 3], ResourceInit [], ResourceExport [2],
           ExportData csv [''2'']],
          Inr \<lparr>status_code = 200,
               headers =
                 [(''Content-Type'', ''text/csv''),
                  (''Content-Disposition'',
                   ''attachment; filename='' @ [CHR 0x22] @ ''Book-2024-03-07.csv''
                     @ [CHR 0x22])],
               content = Bytes ''2''\<rparr>)"
    by (simp add: export_action_allowed [OF i' f'] book_view_resource book_view_filename q'
        book_resource_def str_nat_2 content_disposition_def csv_def)
  from v a plain_view_resource bad good show ?thesis by (intro conjI)
qed

text \<open>
  C5. On a view whose \<^verbatim>\<open>resource_class\<close> is configured and declares its model,
  \<^verbatim>\<open>get_export_filename(f)\<close> is, for every format \<open>f\<close>, the name of that model,
  a hyphen, the date of the clock at the call, a dot and \<^verbatim>\<open>f.get_extension()\<close>.
  The name is read from the class attribute: neither the view's \<^verbatim>\<open>model\<close> nor
  the factory, from which the export resource may be resolved, has any part in
  it. The date is ten characters, \<^verbatim>\<open>YYYY-MM-DD\<close>: the hyphens stand at
  positions 4 and 7 and the three fields read back as the year, the month and
  the day of the clock.
\<close>

theorem export_filename_shape:
  assumes "resource_class self = Some rc" and "meta_model rc = Some m"
  shows "get_export_filename world self f =
           Inr (model_name m @ ''-'' @ strftime_Ymd (now world) @ ''.'' @ get_extension f)
         \<and> get_export_filename (world\<lparr>modelresource_factory := fac\<rparr>) (self\<lparr>model := mo\<rparr>) f
             = get_export_filename world self f
         \<and> (valid_date (now world) \<longrightarrow>
               length (strftime_Ymd (now world)) = 10
               \<and> strftime_Ymd (now world) ! 4 = CHR ''-''
               \<and> strftime_Ymd (now world) ! 7 = CHR ''-''
               \<and> py_int (take 4 (strftime_Ymd (now world))) = Inr (int (year (now world)))
               \<and> py_int (take 2 (drop 5 (strftime_Ymd (now world))))
                   = Inr (int (month (now world)))
               \<and> py_int (drop 8 (strftime_Ymd (now world))) = Inr (int (day (now world))))"
proof (intro conjI impI)
  show "get_export_filename world self f =
      Inr (model_name m @ ''-'' @ strftime_Ymd (now world) @ ''.'' @ get_extension f)"
    using assms by (rule get_export_filename_configured)
  show "get_export_filename (world\<lparr>modelresource_factory := fac\<rparr>) (self\<lparr>model := mo\<rparr>) f
      = get_export_filename world self f"
    by (simp add: get_export_filename_def)
next
  assume v: "valid_date (now world)"
  note parts = strftime_Ymd_parts [OF v]
  show "length (strftime_Ymd (now world)) = 10" by (rule parts(1))
  show "strftime_Ymd (now world) ! 4 = CHR ''-''" by (rule parts(2))
  show "strftime_Ymd (now world) ! 7 = CHR ''-''" by (rule parts(3))
  show "py_int (take 4 (strftime_Ymd (now world))) = Inr (int (year (now world)))"
    by (simp only: parts(4) py_int_zfill)
  show "py_int (take 2 (drop 5 (strftime_Ymd (now world)))) = Inr (int (month (now world)))"
    by (simp only: parts(5) py_int_zfill)
  show "py_int (drop 8 (strftime_Ymd (now world))) = Inr (int (day (now world)))"
    by (simp only: parts(6) py_int_zfill)
qed

theorem export_filename_shape_witness:
  "resource_class book_view = Some book_resource
   \<and> meta_model book_resource = Some (Model ''Book'')
   \<and> valid_date (now the_world)
   \<and> get_export_filename the_world book_view xlsx = Inr ''Book-2024-03-07.xlsx''
   \<and> get_export_filename (the_world\<lparr>modelresource_factory := (\<lambda>m. Inl TypeError)\<rparr>)
        (book_view\<lparr>model := None\<rparr>) xlsx = Inr ''Book-2024-03-07.xlsx''
   \<and> length (strftime_Ymd (now the_world)) = 10
   \<and> py_int (take 4 (strftime_Ymd (now the_world))) = Inr 2024
   \<and> py_int (take 2 (drop 5 (strftime_Ymd (now the_world)))) = Inr 3
   \<and> py_int (drop 8 (strftime_Ymd (now the_world))) = Inr 7"
proof -
  have h1: "resource_class book_view = Some book_resource" by (simp add: book_view_def)
  have h2: "meta_model book_resource = Some (Model ''Book'')" by (simp add: book_resource_def)
  note T = export_filename_shape [OF h1 h2, of the_world xlsx "\<lambda>m. Inl TypeError" None]
  have d: "year (now the_world) = 2024" "month (now the_world) = 3" "day (now the_world) = 7"
    by (simp_all add: the_world_def)
  have x: "get_extension xlsx = ''xlsx''" by (simp add: xlsx_def)
  from T have a: "get_export_filename the_world book_view xlsx = Inr ''Book-2024-03-07.xlsx''"
    by (simp add: today x)
  from T a have b: "get_export_filename (the_world\<lparr>modelresource_factory := (\<lambda>m. Inl TypeError)\<rparr>)
        (book_view\<lparr>model := None\<rparr>) xlsx = Inr ''Book-2024-03-07.xlsx''"
    by simp
  from T valid_today have c: "length (strftime_Ymd (now the_world)) = 10
      \<and> py_int (take 4 (strftime_Ymd (now the_world))) = Inr 2024
      \<and> py_int (take 2 (drop 5 (strftime_Ymd (now the_world)))) = Inr 3
      \<and> py_int (drop 8 (strftime_Ymd (now the_world))) = Inr 7"
    by (simp add: d)
  from h1 h2 valid_today a b c show ?thesis by (intro conjI) simp_all
qed

text \<open>
  C6. When the submitted \<^verbatim>\<open>file_format\<close> is the decimal string of a position
  \<open>i\<close> of \<^verbatim>\<open>get_export_formats()\<close>, \<^verbatim>\<open>form_valid\<close> works with the format at
  that position: it is the only format the run encodes with, and a response
  carries its content type, its encoding of the exported data and the filename
  derived for it. The run does not fail on the selection: an exception it ends
  in is an \<^verbatim>\<open>AttributeError\<close> or the one raised by resolving the resource
  class. A position past the end is not handled: the run ends in
  \<^verbatim>\<open>IndexError\<close> before any effect.
\<close>

theorem form_selects_indexed_format:
  assumes "cleaned_data frm ''file_format'' = Some (str_nat i)"
  shows "(i < length (get_export_formats self) \<longrightarrow>
            (\<forall>g d. ExportData g d \<in> set (fst (form_valid world self frm)) \<longrightarrow>
                g = get_export_formats self ! i)
          \<and> (\<forall>resp. snd (form_valid world self frm) = Inr resp \<longrightarrow>
                (\<exists>rc fn q.
                    get_resource_class world self = Inr rc
                  \<and> get_export_filename world self (get_export_formats self ! i) = Inr fn
                  \<and> ExportData (get_export_formats self ! i) (export rc [] q)
                      \<in> set (fst (form_valid world self frm))
                  \<and> resp =
                      \<lparr>status_code = 200,
                       headers =
                         [(''Content-Type'', get_content_type (get_export_formats self ! i)),
                          (''Content-Disposition'', content_disposition fn)],
                       content = Bytes (export_data (get_export_formats self ! i)
                                          (export rc [] q))\<rparr>))
          \<and> (\<forall>e. snd (form_valid world self frm) = Inl e \<longrightarrow>
                e = AttributeError \<or> get_resource_class world self = Inl e))
       \<and> (length (get_export_formats self) \<le> i \<longrightarrow>
            form_valid world self frm = ([], Inl IndexError))"
proof (intro conjI impI)
  assume "length (get_export_formats self) \<le> i"
  then have "getitem (get_export_formats self) (int i) = Inl IndexError"
    by (simp add: getitem_def)
  then show "form_valid world self frm = ([], Inl IndexError)"
    by (rule form_valid_unselected(3) [OF assms py_int_str_nat])
next
  let ?f = "get_export_formats self ! i"
  assume "i < length (get_export_formats self)"
  then have f: "getitem (get_export_formats self) (int i) = Inr ?f"
    by (rule getitem_nat)
  have all: "(\<forall>g d. ExportData g d \<in> set (fst (form_valid world self frm)) \<longrightarrow> g = ?f)
      \<and> (\<forall>resp. snd (form_valid world self frm) = Inr resp \<longrightarrow>
            (\<exists>rc fn q.
                get_resource_class world self = Inr rc
              \<and> get_export_filename world self ?f = Inr fn
              \<and> ExportData ?f (export rc [] q) \<in> set (fst (form_valid world self frm))
              \<and> resp =
                  \<lparr>status_code = 200,
                   headers = [(''Content-Type'', get_content_type ?f),
                              (''Content-Disposition'', content_disposition fn)],
                   content = Bytes (export_data ?f (export rc [] q))\<rparr>))
      \<and> (\<forall>e. snd (form_valid world self frm) = Inl e \<longrightarrow>
            e = AttributeError \<or> get_resource_class world self = Inl e)"
  proof (cases rule: queryset_resolution_cases [where self = self])
    case (missing g)
    show ?thesis
      by (simp add: form_valid_no_filterset_class [OF assms py_int_str_nat f missing])
  next
    case (resolved ev q)
    note run = form_valid_resolved [OF assms py_int_str_nat f resolved, of world]
    from resolved have ev: "\<And>g d. ev \<noteq> ExportData g d" "\<And>g d. ExportData g d \<noteq> ev"
      by auto
    show ?thesis
    proof (cases "get_resource_class world self")
      case (Inl e)
      show ?thesis unfolding run Inl using ev by simp
    next
      case (Inr rc)
      show ?thesis
      proof (cases "get_export_filename world self ?f")
        case (Inl e)
        then have "e = AttributeError" by (rule get_export_filename_error)
        then show ?thesis unfolding run Inr Inl using ev by simp
      next
        case fn: (Inr fn)
        show ?thesis unfolding run Inr fn using ev by auto
      qed
    qed
  qed
  from all show "\<forall>g d. ExportData g d \<in> set (fst (form_valid world self frm)) \<longrightarrow> g = ?f"
    by (rule conjunct1)
  from all show "\<forall>resp. snd (form_valid world self frm) = Inr resp \<longrightarrow>
            (\<exists>rc fn q.
                get_resource_class world self = Inr rc
              \<and> get_export_filename world self ?f = Inr fn
              \<and> ExportData ?f (export rc [] q) \<in> set (fst (form_valid world self frm))
              \<and> resp =
                  \<lparr>status_code = 200,
                   headers = [(''Content-Type'', get_content_type ?f),
                              (''Content-Disposition'', content_disposition fn)],
                   content = Bytes (export_data ?f (export rc [] q))\<rparr>)"
    by (rule conjunct1 [OF conjunct2])
  from all show "\<forall>e. snd (form_valid world self frm) = Inl e \<longrightarrow>
            e = AttributeError \<or> get_resource_class world self = Inl e"
    by (rule conjunct2 [OF conjunct2])
qed

theorem form_selects_indexed_format_witness:
  "cleaned_data \<lparr>cleaned_data = [''file_format'' \<mapsto> ''1'']\<rparr> ''file_format'' = Some (str_nat (Suc 0))
   \<and> Suc 0 < length (get_export_formats book_view)
   \<and> ExportData xlsx [''1'', ''2'', ''3'']
       \<in> set (fst (form_valid the_world book_view \<lparr>cleaned_data = [''file_format'' \<mapsto> ''1'']\<rparr>))
   \<and> xlsx = get_export_formats book_view ! Suc 0
   \<and> snd (form_valid the_world book_view \<lparr>cleaned_data = [''file_format'' \<mapsto> ''1'']\<rparr>)
       = Inr \<lparr>status_code = 200,
              headers = [(''Content-Type'',
                          ''application/vnd.openxmlformats-officedocument.spreadsheetml.sheet''),
                         (''Content-Disposition'', content_disposition ''Book-2024-03-07.xlsx'')],
              content = Bytes ''PK123''\<rparr>
   \<and> (\<exists>fn. get_export_filename the_world book_view (get_export_formats book_view ! Suc 0) = Inr fn
          \<and> content_disposition ''Book-2024-03-07.xlsx'' = content_disposition fn)
   \<and> snd (form_valid the_world plain_view \<lparr>cleaned_data = [''file_format'' \<mapsto> ''1'']\<rparr>)
       = Inl AttributeError
   \<and> cleaned_data \<lparr>cleaned_data = [''file_format'' \<mapsto> ''2'']\<rparr> ''file_format'' = Some (str_nat 2)
   \<and> length (get_export_formats book_view) \<le> 2
   \<and> form_valid the_world book_view \<lparr>cleaned_data = [''file_format'' \<mapsto> ''2'']\<rparr>
       = ([], Inl IndexError)"
proof -
  let ?frm1 = "\<lparr>cleaned_data = [''file_format'' \<mapsto> ''1'']\<rparr>"
  let ?frm2 = "\<lparr>cleaned_data = [''file_format'' \<mapsto> ''2'']\<rparr>"
  let ?resp = "\<lparr>status_code = 200,
              headers = [(''Content-Type'',
                          ''application/vnd.openxmlformats-officedocument.spreadsheetml.sheet''),
                         (''Content-Disposition'', content_disposition ''Book-2024-03-07.xlsx'')],
              content = Bytes ''PK123''\<rparr>"
  have c1: "cleaned_data ?frm1 ''file_format'' = Some (str_nat (Suc 0))"
    by (simp add: str_nat_1)
  have c2: "cleaned_data ?frm2 ''file_format'' = Some (str_nat 2)"
    by (simp add: str_nat_2)
  have l1: "Suc 0 < length (get_export_formats book_view)"
    by (simp add: book_view_export_formats)
  have l1': "Suc 0 < length (get_export_formats plain_view)"
    by (simp add: plain_view_export_formats)
  have l2: "length (get_export_formats book_view) \<le> 2"
    by (simp add: book_view_export_formats)
  have ev: "ExportData xlsx [''1'', ''2'', ''3'']
      \<in> set (fst (form_valid the_world book_view ?frm1))"
    by (simp add: book_form_run_xlsx)
  have ok: "snd (form_valid the_world book_view ?frm1) = Inr ?resp"
    by (simp add: book_form_run_xlsx)
  have bad: "snd (form_valid the_world plain_view ?frm1) = Inl AttributeError"
    by (simp add: plain_form_run)
  note B = form_selects_indexed_format [OF c1, where self = book_view and world = the_world]
  note P = form_selects_indexed_format [OF c1, where self = plain_view and world = the_world]
  note O = form_selects_indexed_format [OF c2, where self = book_view and world = the_world]
  note B1 = B [THEN conjunct1, THEN mp, OF l1]
  note a = B1 [THEN conjunct1, rule_format, OF ev]
  from B1 [THEN conjunct2, THEN conjunct1, rule_format, OF ok]
  obtain rc :: "(nat list, string list) resource" and fn q where
    fn: "get_export_filename the_world book_view (get_export_formats book_view ! Suc 0) = Inr fn"
    and r: "?resp =
        \<lparr>status_code = 200,
         headers = [(''Content-Type'', get_content_type (get_export_formats book_view ! Suc 0)),
                    (''Content-Disposition'', content_disposition fn)],
         content = Bytes (export_data (get_export_formats book_view ! Suc 0)
                            (export rc [] q))\<rparr>"
    by (elim exE conjE) (rule that, assumption+)
  from r have cd: "content_disposition ''Book-2024-03-07.xlsx'' = content_disposition fn" by simp
  have b: "\<exists>fn. get_export_filename the_world book_view
        (get_export_formats book_view ! Suc 0) = Inr fn
      \<and> content_disposition ''Book-2024-03-07.xlsx'' = content_disposition fn"
    by (intro exI conjI) (rule fn, rule cd)
  note p = P [THEN conjunct1, THEN mp, OF l1', THEN conjunct2, THEN conjunct2, rule_format, OF bad]
  note o = O [THEN conjunct2, THEN mp, OF l2]
  from c1 l1 ev a ok b bad c2 l2 o show ?thesis by (intro conjI)
qed

text \<open>
  C7. A run of \<^verbatim>\<open>form_valid\<close> that returns a response has sent
  \<^verbatim>\<open>post_export\<close> exactly once, with the view's \<^verbatim>\<open>model\<close>, as its last effect
  before returning; a run of the API export action on the same view never
  sends it, whatever the request and whatever the outcome.
\<close>

theorem post_export_only_in_form_flow:
  "(\<forall>resp. snd (form_valid world self frm) = Inr resp \<longrightarrow>
      (\<exists>tr. fst (form_valid world self frm) = tr @ [PostExport (model self)]
            \<and> (\<forall>m. PostExport m \<notin> set tr)))
   \<and> (\<forall>m. PostExport m \<notin> set (fst (export_action world self req)))"
proof (intro conjI allI impI)
  fix resp
  assume ok: "snd (form_valid world self frm) = Inr resp"
  show "\<exists>tr. fst (form_valid world self frm) = tr @ [PostExport (model self)]
            \<and> (\<forall>m. PostExport m \<notin> set tr)"
  proof (cases rule: form_valid_cases [where world = world and self = self and frm = frm])
    case (unselected e)
    with ok show ?thesis by simp
  next
    case (selected s i f ev q)
    note run = form_valid_resolved [OF selected, of world]
    from selected(4) have ev: "\<forall>m. ev \<noteq> PostExport m" by auto
    from ok obtain rc where rc: "get_resource_class world self = Inr rc"
      unfolding run by (cases "get_resource_class world self") simp_all
    from ok obtain fn where fn: "get_export_filename world self f = Inr fn"
      unfolding run rc by (cases "get_export_filename world self f") simp_all
    have "fst (form_valid world self frm) =
        [ev, ResourceInit [], ResourceExport q, ExportData f (export rc [] q)]
          @ [PostExport (model self)]"
      unfolding run rc fn by simp
    moreover have "\<forall>m. PostExport m \<notin> set
        [ev, ResourceInit [], ResourceExport q, ExportData f (export rc [] q)]"
      using ev by auto
    ultimately show ?thesis by blast
  qed
next
  fix m
  let ?t = "dict_get (GET req) ''format'' ''csv''"
  show "PostExport m \<notin> set (fst (export_action world self req))"
  proof (cases "list_index (get_allowed_export_formats self) ?t")
    case (Inl e)
    then show ?thesis by (simp add: export_action_rejected)
  next
    case (Inr i)
    note sel = allowed_index_selects [OF Inr]
    show ?thesis
      unfolding export_action_allowed [OF Inr sel(2)]
      by (simp split: sum.splits)
  qed
qed

theorem post_export_only_in_form_flow_witness:
  "snd (form_valid the_world book_view \<lparr>cleaned_data = [''file_format'' \<mapsto> ''0'']\<rparr>)
     = Inr \<lparr>status_code = 200,
            headers = [(''Content-Type'', ''text/csv''),
                       (''Content-Disposition'', content_disposition ''Book-2024-03-07.csv'')],
            content = Bytes ''123''\<rparr>
   \<and> (\<exists>tr. fst (form_valid the_world book_view \<lparr>cleaned_data = [''file_format'' \<mapsto> ''0'']\<rparr>)
             = tr @ [PostExport (model book_view)]
           \<and> (\<forall>m. PostExport m \<notin> set tr))
   \<and> PostExport (model book_view)
       \<notin> set (fst (export_action the_world book_view \<lparr>GET = [''format'' \<mapsto> ''csv'']\<rparr>))"
proof -
  let ?frm = "\<lparr>cleaned_data = [''file_format'' \<mapsto> ''0'']\<rparr>"
  let ?req = "\<lparr>GET = [''format'' \<mapsto> ''csv'']\<rparr>"
  have h: "snd (form_valid the_world book_view ?frm)
     = Inr \<lparr>status_code = 200,
            headers = [(''Content-Type'', ''text/csv''),
                       (''Content-Disposition'', content_disposition ''Book-2024-03-07.csv'')],
            content = Bytes ''123''\<rparr>"
    by (simp add: book_form_run_csv)
  note T = post_export_only_in_form_flow [of the_world book_view ?frm ?req]
  from T h have a: "\<exists>tr. fst (form_valid the_world book_view ?frm)
             = tr @ [PostExport (model book_view)] \<and> (\<forall>m. PostExport m \<notin> set tr)"
    by blast
  from T have b: "PostExport (model book_view)
       \<notin> set (fst (export_action the_world book_view ?req))"
    by blast
  from h a b show ?thesis by (intro conjI)
qed

text \<open>
  C8. \<^verbatim>\<open>get_resource_class()\<close> returns the configured \<^verbatim>\<open>resource_class\<close> when
  there is one and otherwise what \<^verbatim>\<open>modelresource_factory\<close> derives from the
  view's \<^verbatim>\<open>model\<close>; \<^verbatim>\<open>get_import_resource_class()\<close> and
  \<^verbatim>\<open>get_export_resource_class()\<close> return the same.
\<close>

theorem resource_class_resolution:
  "(\<forall>rc. resource_class self = Some rc \<longrightarrow> get_resource_class world self = Inr rc)
   \<and> (resource_class self = None \<longrightarrow>
         get_resource_class world self = modelresource_factory world (model self))
   \<and> get_import_resource_class world self = get_resource_class world self
   \<and> get_export_resource_class world self = get_resource_class world self"
  by (simp add: get_resource_class_def get_import_resource_class_def
      get_export_resource_class_def)

theorem resource_class_resolution_witness:
  "resource_class book_view = Some book_resource
   \<and> get_resource_class the_world book_view = Inr book_resource
   \<and> get_export_resource_class the_world book_view = Inr book_resource
   \<and> resource_class plain_view = None
   \<and> get_resource_class the_world plain_view = modelresource_factory the_world (model plain_view)
   \<and> map_sum id meta_model (get_import_resource_class the_world plain_view)
       = Inr (Some (Model ''Book''))"
proof -
  have h1: "resource_class book_view = Some book_resource" by (simp add: book_view_def)
  have h2: "resource_class plain_view = None" by (simp add: plain_view_def)
  note B = resource_class_resolution [of book_view the_world]
  note P = resource_class_resolution [of plain_view the_world]
  from B h1 have b: "get_resource_class the_world book_view = Inr book_resource" by blast
  with B have b': "get_export_resource_class the_world book_view = Inr book_resource" by simp
  from P h2 have p: "get_resource_class the_world plain_view
      = modelresource_factory the_world (model plain_view)" by blast
  have "modelresource_factory the_world (model plain_view)
      = Inr \<lparr>meta_model = Some (Model ''Book''), export = (\<lambda>kw qs. map str_nat qs)\<rparr>"
    by (simp add: the_world_def plain_view_def book_view_def)
  with P p have p': "map_sum id meta_model (get_import_resource_class the_world plain_view)
       = Inr (Some (Model ''Book''))" by simp
  from h1 h2 b b' p p' show ?thesis by (intro conjI)
qed

text \<open>
  C9. The queryset \<^verbatim>\<open>form_valid\<close> exports is chosen by the presence of
  \<^verbatim>\<open>get_filterset\<close> on the view alone: on a view that has it, a queryset
  handed to the resource is the one \<^verbatim>\<open>get_filterset(get_filterset_class())\<close>
  yields and \<^verbatim>\<open>get_queryset()\<close> is not called; on a view that has not, it is
  the result of \<^verbatim>\<open>get_queryset()\<close>. The body of a response is the encoding of
  the resource's export of a queryset so chosen.
\<close>

theorem form_queryset_choice:
  "(\<forall>g q. get_filterset self = Some g \<longrightarrow>
        ResourceExport q \<in> set (fst (form_valid world self frm)) \<longrightarrow>
        (\<exists>c. get_filterset_class self = Some c \<and> q = g c)
        \<and> GetQueryset \<notin> set (fst (form_valid world self frm)))
   \<and> (get_filterset self = None \<longrightarrow>
        (\<forall>q. ResourceExport q \<in> set (fst (form_valid world self frm)) \<longrightarrow>
            q = get_queryset self))
   \<and> (\<forall>resp. snd (form_valid world self frm) = Inr resp \<longrightarrow>
        (\<exists>q f rc. ResourceExport q \<in> set (fst (form_valid world self frm))
            \<and> f \<in> set (get_export_formats self)
            \<and> get_resource_class world self = Inr rc
            \<and> content resp = Bytes (export_data f (export rc [] q))))"
proof (cases rule: form_valid_cases [where world = world and self = self and frm = frm])
  case (unselected e)
  then show ?thesis by simp
next
  case (selected s i f ev q)
  note run = form_valid_resolved [OF selected, of world]
  from selected(4) have ev: "\<And>q'. ev \<noteq> ResourceExport q'" "\<And>q'. ResourceExport q' \<noteq> ev"
    by auto
  from selected(4) have pick:
    "\<And>g. get_filterset self = Some g \<Longrightarrow>
        (\<exists>c. get_filterset_class self = Some c \<and> q = g c) \<and> ev \<noteq> GetQueryset"
    "get_filterset self = None \<Longrightarrow> q = get_queryset self"
    by auto
  show ?thesis
  proof (cases "get_resource_class world self")
    case (Inl e)
    show ?thesis unfolding run Inl using ev by simp
  next
    case rc: (Inr rc)
    show ?thesis
    proof (cases "get_export_filename world self f")
      case (Inl e)
      show ?thesis unfolding run rc Inl using ev pick by auto
    next
      case fn: (Inr fn)
      have tr: "fst (form_valid world self frm) =
          [ev, ResourceInit [], ResourceExport q, ExportData f (export rc [] q),
           PostExport (model self)]"
        unfolding run rc fn by simp
      have res: "\<And>resp. snd (form_valid world self frm) = Inr resp \<Longrightarrow>
          content resp = Bytes (export_data f (export rc [] q))"
        unfolding run rc fn by auto
      have third: "\<forall>resp. snd (form_valid world self frm) = Inr resp \<longrightarrow>
          (\<exists>q f rc. ResourceExport q \<in> set (fst (form_valid world self frm))
              \<and> f \<in> set (get_export_formats self)
              \<and> get_resource_class world self = Inr rc
              \<and> content resp = Bytes (export_data f (export rc [] q)))"
      proof (intro allI impI)
        fix resp
        assume "snd (form_valid world self frm) = Inr resp"
        then have c: "content resp = Bytes (export_data f (export rc [] q))" by (rule res)
        have m: "ResourceExport q \<in> set (fst (form_valid world self frm))"
          unfolding tr by simp
        show "\<exists>q f rc. ResourceExport q \<in> set (fst (form_valid world self frm))
              \<and> f \<in> set (get_export_formats self)
              \<and> get_resource_class world self = Inr rc
              \<and> content resp = Bytes (export_data f (export rc [] q))"
          by (intro exI conjI) (rule m, rule getitem_in_set [OF selected(3)], rule rc, rule c)
      qed
      have one: "\<forall>g q. get_filterset self = Some g \<longrightarrow>
          ResourceExport q \<in> set (fst (form_valid world self frm)) \<longrightarrow>
          (\<exists>c. get_filterset_class self = Some c \<and> q = g c)
          \<and> GetQueryset \<notin> set (fst (form_valid world self frm))"
        unfolding tr using ev pick by auto
      have two: "get_filterset self = None \<longrightarrow>
          (\<forall>q. ResourceExport q \<in> set (fst (form_valid world self frm)) \<longrightarrow>
              q = get_queryset self)"
        unfolding tr using ev pick by auto
      from one two third show ?thesis by (intro conjI)
    qed
  qed
qed

theorem form_queryset_choice_witness:
  "get_filterset filtered_view = Some (\<lambda>c. [4, 5])
   \<and> ResourceExport [4, 5]
       \<in> set (fst (form_valid the_world filtered_view \<lparr>cleaned_data = [''file_format'' \<mapsto> ''0'']\<rparr>))
   \<and> (\<exists>c. get_filterset_class filtered_view = Some c \<and> [4, 5] = (\<lambda>c. [4, 5]) c)
   \<and> GetQueryset
       \<notin> set (fst (form_valid the_world filtered_view \<lparr>cleaned_data = [''file_format'' \<mapsto> ''0'']\<rparr>))
   \<and> snd (form_valid the_world filtered_view \<lparr>cleaned_data = [''file_format'' \<mapsto> ''0'']\<rparr>)
       = Inr \<lparr>status_code = 200,
              headers = [(''Content-Type'', ''text/csv''),
                         (''Content-Disposition'', content_disposition ''Book-2024-03-07.csv'')],
              content = Bytes ''45''\<rparr>
   \<and> (\<exists>q f rc. ResourceExport q
          \<in> set (fst (form_valid the_world filtered_view
                        \<lparr>cleaned_data = [''file_format'' \<mapsto> ''0'']\<rparr>))
        \<and> f \<in> set (get_export_formats filtered_view)
        \<and> get_resource_class the_world filtered_view = Inr rc
        \<and> Bytes ''45'' = Bytes (export_data f (export rc [] q)))
   \<and> get_filterset book_view = None
   \<and> ResourceExport [1, 2, 3]
       \<in> set (fst (form_valid the_world book_view \<lparr>cleaned_data = [''file_format'' \<mapsto> ''0'']\<rparr>))
   \<and> [1, 2, 3] = get_queryset book_view"
proof -
  let ?frm = "\<lparr>cleaned_data = [''file_format'' \<mapsto> ''0'']\<rparr>"
  let ?resp = "\<lparr>status_code = 200,
              headers = [(''Content-Type'', ''text/csv''),
                         (''Content-Disposition'', content_disposition ''Book-2024-03-07.csv'')],
              content = Bytes ''45''\<rparr>"
  have h1: "get_filterset filtered_view = Some (\<lambda>c. [4, 5])"
    by (simp add: filtered_view_def book_view_def)
  have h2: "ResourceExport [4, 5] \<in> set (fst (form_valid the_world filtered_view ?frm))"
    by (simp add: filtered_form_run)
  have h3: "snd (form_valid the_world filtered_view ?frm) = Inr ?resp"
    by (simp add: filtered_form_run)
  have h4: "ResourceExport [1, 2, 3] \<in> set (fst (form_valid the_world book_view ?frm))"
    by (simp add: book_form_run_csv)
  note F = form_queryset_choice [where self = filtered_view and world = the_world and frm = ?frm]
  note B = form_queryset_choice [where self = book_view and world = the_world and frm = ?frm]
  note a = F [THEN conjunct1, rule_format, OF h1 h2]
  note b0 = F [THEN conjunct2, THEN conjunct2, rule_format, OF h3]
  from b0 have b: "\<exists>q f rc. ResourceExport q \<in> set (fst (form_valid the_world filtered_view ?frm))
        \<and> f \<in> set (get_export_formats filtered_view)
        \<and> get_resource_class the_world filtered_view = Inr rc
        \<and> Bytes ''45'' = Bytes (export_data f (export rc [] q))"
    by simp
  note c = B [THEN conjunct2, THEN conjunct1, rule_format, OF book_view_no_filterset h4]
  from a have a1: "\<exists>c. get_filterset_class filtered_view = Some c \<and> [4, 5] = (\<lambda>c. [4, 5]) c"
    and a2: "GetQueryset \<notin> set (fst (form_valid the_world filtered_view ?frm))"
    by simp_all
  from h1 h2 a1 a2 h3 b book_view_no_filterset h4 c show ?thesis by (intro conjI)
qed

text \<open>
  C10. On a view whose \<^verbatim>\<open>resource_class\<close> is left at \<^verbatim>\<open>None\<close>,
  \<^verbatim>\<open>get_export_filename\<close> ends in \<^verbatim>\<open>AttributeError\<close> for every format,
  although \<^verbatim>\<open>get_resource_class()\<close> and \<^verbatim>\<open>get_data_for_export\<close> succeed
  whenever the factory derives a resource from \<^verbatim>\<open>model\<close>. So \<^verbatim>\<open>form_valid\<close>
  never returns a response on such a view, and the only response the API export
  action returns on it is the rejection with status 400 of a title that is not
  allowed.
\<close>

theorem export_needs_configured_resource_class:
  assumes "resource_class self = None"
  shows "get_export_filename world self f = Inl AttributeError
   \<and> (\<forall>rc. modelresource_factory world (model self) = Inr rc \<longrightarrow>
         get_resource_class world self = Inr rc
         \<and> get_data_for_export world self q
             = ([ResourceInit [], ResourceExport q], Inr (export rc [] q)))
   \<and> (\<forall>frm resp. snd (form_valid world self frm) \<noteq> Inr resp)
   \<and> (\<forall>req resp. snd (export_action world self req) = Inr resp \<longrightarrow>
         status_code resp = 400
         \<and> dict_get (GET req) ''format'' ''csv'' \<notin> set (get_allowed_export_formats self))"
proof (intro conjI allI impI)
  show "get_export_filename world self f = Inl AttributeError"
    using assms by (rule get_export_filename_unconfigured)
next
  fix rc
  assume fac: "modelresource_factory world (model self) = Inr rc"
  with assms show rc: "get_resource_class world self = Inr rc"
    by (simp add: get_resource_class_def)
  show "get_data_for_export world self q
      = ([ResourceInit [], ResourceExport q], Inr (export rc [] q))"
    by (simp add: get_data_for_export_run rc)
next
  fix frm resp
  show "snd (form_valid world self frm) \<noteq> Inr resp"
  proof (cases rule: form_valid_cases [where world = world and self = self and frm = frm])
    case (unselected e)
    then show ?thesis by simp
  next
    case (selected s i f' ev q')
    show ?thesis
      unfolding form_valid_resolved [OF selected, of world]
        get_export_filename_unconfigured [OF assms]
      by (simp split: sum.splits)
  qed
next
  fix req resp
  assume ok: "snd (export_action world self req) = Inr resp"
  let ?t = "dict_get (GET req) ''format'' ''csv''"
  have "status_code resp = 400 \<and> ?t \<notin> set (get_allowed_export_formats self)"
  proof (cases "list_index (get_allowed_export_formats self) ?t")
    case (Inl e)
    with ok show ?thesis
      by (auto simp: export_action_rejected JsonResponse_def list_index_Inl_iff)
  next
    case (Inr i)
    note sel = allowed_index_selects [OF Inr]
    from ok have False
      unfolding export_action_allowed [OF Inr sel(2)]
        get_export_filename_unconfigured [OF assms]
      by (simp split: sum.splits)
    then show ?thesis ..
  qed
  then show "status_code resp = 400"
    and "?t \<notin> set (get_allowed_export_formats self)" by simp_all
qed

theorem export_needs_configured_resource_class_witness:
  "resource_class plain_view = None
   \<and> get_export_filename the_world plain_view csv = Inl AttributeError
   \<and> modelresource_factory the_world (model plain_view)
       = Inr \<lparr>meta_model = Some (Model ''Book''), export = (\<lambda>kw qs. map str_nat qs)\<rparr>
   \<and> get_data_for_export the_world plain_view [2] = ([ResourceInit [], ResourceExport [2]], Inr [''2''])
   \<and> snd (form_valid the_world plain_view \<lparr>cleaned_data = [''file_format'' \<mapsto> ''0'']\<rparr>)
       = Inl AttributeError
   \<and> snd (export_action the_world plain_view \<lparr>GET = [''format'' \<mapsto> ''pdf'']\<rparr>)
       = Inr (JsonResponse [(''message'', ''format is not supported'')] 400)
   \<and> status_code (JsonResponse [(''message'', ''format is not supported'')] 400) = 400
   \<and> dict_get (GET \<lparr>GET = [''format'' \<mapsto> ''pdf'']\<rparr>) ''format'' ''csv''
       \<notin> set (get_allowed_export_formats plain_view)"
proof -
  let ?frm = "\<lparr>cleaned_data = [''file_format'' \<mapsto> ''0'']\<rparr>"
  let ?req = "\<lparr>GET = [''format'' \<mapsto> ''pdf'']\<rparr>"
  let ?rc = "\<lparr>meta_model = Some (Model ''Book''), export = (\<lambda>kw qs. map str_nat qs)\<rparr>
    :: (nat list, string list) resource"
  have h1: "resource_class plain_view = None" by (simp add: plain_view_def)
  have h2: "modelresource_factory the_world (model plain_view) = Inr ?rc"
    by (simp add: the_world_def plain_view_def book_view_def)
  have t: "dict_get (GET ?req) ''format'' ''csv'' \<notin> set (get_allowed_export_formats plain_view)"
    by (simp add: dict_get_def plain_view_allowed)
  then have "list_index (get_allowed_export_formats plain_view)
      (dict_get (GET ?req) ''format'' ''csv'') = Inl ValueError"
    by (simp add: list_index_Inl_iff)
  then have h3: "snd (export_action the_world plain_view ?req)
      = Inr (JsonResponse [(''message'', ''format is not supported'')] 400)"
    by (simp add: export_action_rejected)
  note T = export_needs_configured_resource_class [OF h1, of the_world csv "[2]"]
  from T have a: "get_export_filename the_world plain_view csv = Inl AttributeError" by blast
  from T h2 have b: "get_data_for_export the_world plain_view [2]
      = ([ResourceInit [], ResourceExport [2]], Inr (export ?rc [] [2]))" by blast
  then have b': "get_data_for_export the_world plain_view [2]
      = ([ResourceInit [], ResourceExport [2]], Inr [''2''])"
    by (simp add: str_nat_2)
  from T have "\<forall>resp. snd (form_valid the_world plain_view ?frm) \<noteq> Inr resp" by blast
  moreover have "snd (form_valid the_world plain_view ?frm) = Inl AttributeError
      \<or> (\<exists>resp. snd (form_valid the_world plain_view ?frm) = Inr resp)"
  proof -
    have c: "cleaned_data ?frm ''file_format'' = Some ''0''" by simp
    have f: "getitem (get_export_formats plain_view) 0 = Inr csv"
      by (simp add: getitem_def plain_view_export_formats)
    have nf: "get_filterset plain_view = None" by (simp add: plain_view_def book_view_def)
    show ?thesis
      unfolding form_valid_selected [OF c py_int_0 f]
      by (simp add: nf plain_view_resource plain_view_filename)
  qed
  ultimately have c: "snd (form_valid the_world plain_view ?frm) = Inl AttributeError" by blast
  from T h3 have d: "status_code (JsonResponse [(''message'', ''format is not supported'')] 400) = 400"
    by blast
  from h1 a h2 b' c h3 d t show ?thesis by (intro conjI)
qed

end
